theory Spec2Isabelle
  imports Complex_Main "HOL-Library.Sublist" "HOL-Library.Log_Nat"
begin

section \<open>Strings\<close>

text \<open>
  The service works on JavaScript strings. They are modelled as \<open>string\<close>; every literal of
  the source is ASCII. \<open>str_includes s search\<close> is \<open>s.includes(search)\<close>: \<open>search\<close> occurs in
  \<open>s\<close> as a contiguous run of characters.
\<close>

definition str_includes :: "string \<Rightarrow> string \<Rightarrow> bool" where
  "str_includes s search = sublist search s"

text \<open>
  Truthiness of an optional string (\<open>undefined\<close> and the empty string are falsy), the
  operator \<open>a || b\<close> on two of them, and the interpolation \<open>${x}\<close> of one into a template.
\<close>

definition truthy :: "string option \<Rightarrow> bool" where
  "truthy x = (case x of None \<Rightarrow> False | Some s \<Rightarrow> s \<noteq> [])"

definition js_or :: "string option \<Rightarrow> string option \<Rightarrow> string option" where
  "js_or a b = (if truthy a then a else b)"

definition interpolate :: "string option \<Rightarrow> string" where
  "interpolate x = (case x of None \<Rightarrow> ''undefined'' | Some s \<Rightarrow> s)"

section \<open>types.ts\<close>

text \<open>
  \<open>ArtStyle\<close> is a string enum: at run time a style is its label, and the selector of the
  presentation layer casts any string to it (\<open>e.target.value as ArtStyle\<close>). A style is
  therefore a string, and the eight members are the eight labels.
\<close>

type_synonym ArtStyle = string

definition REALISTIC :: ArtStyle where "REALISTIC = ''Hyper-Realistic''"
definition CARTOON :: ArtStyle where "CARTOON = ''Vibrant Cartoon''"
definition THREE_D_PIXAR :: ArtStyle where "THREE_D_PIXAR = ''3D Pixar Style''"
definition ANIME :: ArtStyle where "ANIME = ''Japanese Anime''"
definition VINTAGE_PHOTO :: ArtStyle where "VINTAGE_PHOTO = ''Vintage Sepia Photograph''"
definition CLAYMATION :: ArtStyle where "CLAYMATION = ''Claymation Stop-motion''"
definition FANTASY_ART :: ArtStyle where "FANTASY_ART = ''Digital Fantasy Art''"
definition NEON_PUNK :: ArtStyle where "NEON_PUNK = ''Neon Punk''"

definition ArtStyle_values :: "ArtStyle list" where
  "ArtStyle_values =
     [REALISTIC, CARTOON, THREE_D_PIXAR, ANIME, VINTAGE_PHOTO, CLAYMATION, FANTASY_ART, NEON_PUNK]"

datatype RegenerationModel = gemini | imagen

text \<open>The text of a model inside a template literal.\<close>

fun model_name :: "RegenerationModel \<Rightarrow> string" where
  "model_name gemini = ''gemini''"
| "model_name imagen = ''imagen''"

section \<open>The style catalogue\<close>

definition getGeminiInstructionalPrompt :: "ArtStyle \<Rightarrow> string" where
  "getGeminiInstructionalPrompt style =
    (if style = REALISTIC then
       ''Recreate this image as an ultra-realistic, photorealistic, high-detail photograph. It should look like it was shot with a professional DSLR camera, with sharp focus and intricate details.''
     else if style = CARTOON then
       ''Recreate this image as a vibrant, colorful, bold-lined cartoon illustration in a playful style. Use cel-shading, expressive characters, and clean lines.''
     else if style = THREE_D_PIXAR then
       ''Recreate this image in the style of a modern 3D animated film, like those from Pixar. It should have soft lighting, detailed textures, and expressive, rounded characters with a friendly and appealing look.''
     else if style = ANIME then
       ''Recreate this image as a beautiful Japanese anime scene, in the style of a critically acclaimed animation studio. It should have detailed background art, cel-shaded characters, and cinematic anime lighting.''
     else if style = VINTAGE_PHOTO then
       ''Recreate this image as an authentic-looking vintage sepia photograph from the early 20th century. It should have a grainy texture, faded tones, and soft focus to capture a timeless moment.''
     else if style = CLAYMATION then
       ''Recreate this image as a charming claymation stop-motion scene with a handcrafted look. The models should be textured with visible fingerprints in the clay, and have whimsical lighting.''
     else if style = FANTASY_ART then
       ''Recreate this image as an epic digital fantasy art painting. It needs ethereal lighting, intricate details, and a mythical atmosphere, in the style of a high-fantasy book cover.''
     else if style = NEON_PUNK then
       ''Recreate this image as a neon-drenched, cyberpunk cityscape scene. It should have glowing neon lights, rainy streets with reflections, high-tech gadgets, and a dystopian 'neon punk' aesthetic.''
     else
       ''Recreate this image in the style of a high-detail, cinematic image with the theme of ''
         @ [CHR 0x27] @ style @ [CHR 0x27] @ ''.'')"

definition getImagenStyleSuffix :: "ArtStyle \<Rightarrow> string" where
  "getImagenStyleSuffix style =
    (if style = REALISTIC then
       '', ultra-realistic, photorealistic, 8k, sharp focus, professional DSLR photo.''
     else if style = CARTOON then
       '', vibrant cartoon illustration, bold lines, cel-shaded, playful style.''
     else if style = THREE_D_PIXAR then
       '', in the style of a 3D Pixar animated film, soft lighting, detailed textures, expressive characters.''
     else if style = ANIME then
       '', beautiful Japanese anime scene, style of a top animation studio, cinematic anime lighting.''
     else if style = VINTAGE_PHOTO then
       '', authentic vintage sepia photograph, grainy texture, faded tones, early 20th century.''
     else if style = CLAYMATION then
       '', charming claymation stop-motion scene, handcrafted look, visible fingerprints in the clay.''
     else if style = FANTASY_ART then
       '', epic digital fantasy art painting, ethereal lighting, intricate details, mythical atmosphere.''
     else if style = NEON_PUNK then
       '', neon-drenched cyberpunk cityscape, glowing neon lights, rainy streets, dystopian aesthetic.''
     else
       '', in the style of '' @ style @ ''.'')"

section \<open>Numbers\<close>

text \<open>
  A JavaScript number is an IEEE 754 binary64 value: a finite value, one of the two
  infinities, or \<open>NaN\<close>. A finite value is carried as the real number it denotes; the reals
  that a double denotes are those that \<open>round64\<close> leaves unchanged (\<open>is_double\<close>). The two
  zeros are one value here: the mapper subtracts, takes absolute values and compares, and
  the result of none of these depends on the sign of a zero.

  \<open>binade x\<close> is the exponent \<open>e\<close> with \<open>2^e \<le> x < 2^(e+1)\<close> of a positive \<open>x\<close>, computed
  from the bit length of an integer. A double of that binade is a multiple of
  \<open>2^(e - 52)\<close>; below \<open>2^(-1022)\<close> the doubles are the multiples of \<open>2^(-1074)\<close>.
  \<open>round_to_double\<close> rounds a real to the nearest such multiple, a tie to the one with the
  even multiplier, and \<open>round64\<close> turns a result of magnitude \<open>2^1024\<close> or more into an
  infinity. This is the rounding of every arithmetic operation of the language.
\<close>

datatype number = Finite real | PosInfinity | NegInfinity | NaN

definition binade :: "real \<Rightarrow> int" where
  "binade x = (if 1 \<le> x then bitlen \<lfloor>x\<rfloor> - 1 else - bitlen (\<lceil>1 / x\<rceil> - 1))"

definition round_half_even :: "real \<Rightarrow> int" where
  "round_half_even q =
     (let n = \<lfloor>q\<rfloor>; r = q - of_int n
      in if r < 1 / 2 then n else if 1 / 2 < r then n + 1 else if even n then n else n + 1)"

definition ulp_exponent :: "real \<Rightarrow> int" where
  "ulp_exponent x = max (binade \<bar>x\<bar>) (- 1022) - 52"

definition round_to_double :: "real \<Rightarrow> real" where
  "round_to_double x =
     (if x = 0 then 0
      else of_int (round_half_even (x / 2 powi ulp_exponent x)) * 2 powi ulp_exponent x)"

definition round64 :: "real \<Rightarrow> number" where
  "round64 x =
     (let r = round_to_double x
      in if 2 ^ 1024 \<le> r then PosInfinity
         else if r \<le> - (2 ^ 1024) then NegInfinity
         else Finite r)"

definition is_double :: "real \<Rightarrow> bool" where
  "is_double x \<longleftrightarrow> round64 x = Finite x"

text \<open>The operators \<open>a - b\<close> and \<open>a < b\<close> and the function \<open>Math.abs\<close>.\<close>

fun js_sub :: "number \<Rightarrow> number \<Rightarrow> number" where
  "js_sub NaN b = NaN"
| "js_sub a NaN = NaN"
| "js_sub (Finite a) (Finite b) = round64 (a - b)"
| "js_sub (Finite a) PosInfinity = NegInfinity"
| "js_sub (Finite a) NegInfinity = PosInfinity"
| "js_sub PosInfinity PosInfinity = NaN"
| "js_sub PosInfinity b = PosInfinity"
| "js_sub NegInfinity NegInfinity = NaN"
| "js_sub NegInfinity b = NegInfinity"

fun js_abs :: "number \<Rightarrow> number" where
  "js_abs (Finite a) = Finite \<bar>a\<bar>"
| "js_abs PosInfinity = PosInfinity"
| "js_abs NegInfinity = PosInfinity"
| "js_abs NaN = NaN"

fun js_less :: "number \<Rightarrow> number \<Rightarrow> bool" where
  "js_less NaN b = False"
| "js_less a NaN = False"
| "js_less (Finite a) (Finite b) = (a < b)"
| "js_less (Finite a) PosInfinity = True"
| "js_less (Finite a) NegInfinity = False"
| "js_less PosInfinity b = False"
| "js_less NegInfinity NegInfinity = False"
| "js_less NegInfinity b = True"

section \<open>The aspect-ratio mapper\<close>

text \<open>
  The keys of the object \<open>supportedRatios\<close> form the closed type
  \<open>keyof typeof supportedRatios\<close>, which is also the return type of the mapper. The object
  is the total function from a key to its number, each the rounded quotient that the
  literal writes, and \<open>for (const key in supportedRatios)\<close> visits the keys in the order
  the literal lists them.
\<close>

datatype SupportedRatio = Ratio_1_1 | Ratio_4_3 | Ratio_3_4 | Ratio_16_9 | Ratio_9_16

fun ratio_token :: "SupportedRatio \<Rightarrow> string" where
  "ratio_token Ratio_1_1 = ''1:1''"
| "ratio_token Ratio_4_3 = ''4:3''"
| "ratio_token Ratio_3_4 = ''3:4''"
| "ratio_token Ratio_16_9 = ''16:9''"
| "ratio_token Ratio_9_16 = ''9:16''"

fun supportedRatios :: "SupportedRatio \<Rightarrow> number" where
  "supportedRatios Ratio_1_1 = Finite 1"
| "supportedRatios Ratio_4_3 = round64 (4 / 3)"
| "supportedRatios Ratio_3_4 = round64 (3 / 4)"
| "supportedRatios Ratio_16_9 = round64 (16 / 9)"
| "supportedRatios Ratio_9_16 = round64 (9 / 16)"

definition supportedRatios_keys :: "SupportedRatio list" where
  "supportedRatios_keys = [Ratio_1_1, Ratio_4_3, Ratio_3_4, Ratio_16_9, Ratio_9_16]"

text \<open>The loop, on the keys still to visit, with the pair \<open>(closest, minDiff)\<close> as its state.\<close>

fun closest_loop ::
    "number \<Rightarrow> SupportedRatio list \<Rightarrow> SupportedRatio \<times> number \<Rightarrow> SupportedRatio \<times> number" where
  "closest_loop ratio [] (closest, minDiff) = (closest, minDiff)"
| "closest_loop ratio (key # keys) (closest, minDiff) =
     (let diff = js_abs (js_sub ratio (supportedRatios key))
      in if js_less diff minDiff then closest_loop ratio keys (key, diff)
         else closest_loop ratio keys (closest, minDiff))"

definition mapAspectRatioToImagen :: "number \<Rightarrow> SupportedRatio" where
  "mapAspectRatioToImagen ratio =
     fst (closest_loop ratio supportedRatios_keys
            (Ratio_1_1, js_abs (js_sub ratio (supportedRatios Ratio_1_1))))"

section \<open>The remote services\<close>

text \<open>
  The client library is not part of the repository. Its requests and responses are
  modelled with the fields the service reads or writes; an optional field is an \<open>option\<close>.
\<close>

record InlineData =
  data :: string
  mimeType :: string

record Part =
  inlineData :: "InlineData option"
  part_text :: "string option"

datatype Modality = IMAGE | TEXT

record GenerateContentParameters =
  content_model :: string
  contents_parts :: "Part list"
  responseModalities :: "Modality list"

record GenerateImagesParameters =
  images_model :: string
  images_prompt :: string
  numberOfImages :: nat
  outputMimeType :: string
  config_aspectRatio :: string

record Content =
  parts :: "Part list option"

record Candidate =
  content :: "Content option"
  finishReason :: "string option"

record PromptFeedback =
  blockReason :: "string option"

record GenerateContentResponse =
  candidates :: "Candidate list option"
  promptFeedback :: "PromptFeedback option"

record Image =
  imageBytes :: "string option"

record GeneratedImage =
  generated_image :: "Image option"

record GenerateImagesResponse =
  generatedImages :: "GeneratedImage list option"
  images_promptFeedback :: "PromptFeedback option"

text \<open>
  What a \<open>throw\<close> delivers: an \<open>Error\<close> object with its message, or a value that is not
  an instance of \<open>Error\<close>.
\<close>

datatype thrown = Error string | NonError string

text \<open>
  The world a call runs in: the credential of the process environment and the two remote
  operations, each answering a request with a response or by throwing. Every operation of
  the service returns the list of remote calls it made together with its result.
\<close>

record Env =
  API_KEY :: "string option"
  generateContent :: "GenerateContentParameters \<Rightarrow> thrown + GenerateContentResponse"
  generateImages :: "GenerateImagesParameters \<Rightarrow> thrown + GenerateImagesResponse"

datatype network_call =
  GenerateContent GenerateContentParameters
| GenerateImages GenerateImagesParameters

record RegenerationResult =
  result_image :: string
  result_prompt :: string

type_synonym outcome = "network_call list \<times> (thrown + RegenerationResult)"

definition getAiClient :: "Env \<Rightarrow> thrown + string" where
  "getAiClient env =
     (case API_KEY env of
        None \<Rightarrow> Inl (Error ''Gemini API key is not set. Please configure the API_KEY environment variable.'')
      | Some apiKey \<Rightarrow>
          if apiKey = [] then
            Inl (Error ''Gemini API key is not set. Please configure the API_KEY environment variable.'')
          else Inr apiKey)"

subsection \<open>Reading a response\<close>

text \<open>\<open>response.candidates?.[0]\<close>, \<open>candidate?.content?.parts\<close>, \<open>candidate?.finishReason\<close>
  and \<open>response.promptFeedback?.blockReason\<close>.\<close>

definition first_candidate :: "GenerateContentResponse \<Rightarrow> Candidate option" where
  "first_candidate response =
     (case candidates response of None \<Rightarrow> None | Some [] \<Rightarrow> None | Some (c # _) \<Rightarrow> Some c)"

definition candidate_parts :: "Candidate option \<Rightarrow> Part list option" where
  "candidate_parts candidate =
     (case candidate of
        None \<Rightarrow> None
      | Some c \<Rightarrow> (case content c of None \<Rightarrow> None | Some ct \<Rightarrow> parts ct))"

definition candidate_finishReason :: "Candidate option \<Rightarrow> string option" where
  "candidate_finishReason candidate =
     (case candidate of None \<Rightarrow> None | Some c \<Rightarrow> finishReason c)"

definition feedback_blockReason :: "PromptFeedback option \<Rightarrow> string option" where
  "feedback_blockReason feedback =
     (case feedback of None \<Rightarrow> None | Some f \<Rightarrow> blockReason f)"

text \<open>The loop over the parts: it leaves at the first part whose \<open>inlineData\<close> is present.\<close>

fun first_inlineData :: "Part list \<Rightarrow> InlineData option" where
  "first_inlineData [] = None"
| "first_inlineData (part # rest) =
     (case inlineData part of Some d \<Rightarrow> Some d | None \<Rightarrow> first_inlineData rest)"

definition scan_parts :: "Candidate option \<Rightarrow> InlineData option" where
  "scan_parts candidate =
     (case candidate_parts candidate of None \<Rightarrow> None | Some ps \<Rightarrow> first_inlineData ps)"

section \<open>The image-to-image adapter\<close>

definition gemini_request :: "string \<Rightarrow> string \<Rightarrow> GenerateContentParameters" where
  "gemini_request base64Data finalPrompt =
     \<lparr>content_model = ''gemini-2.5-flash-image-preview'',
      contents_parts =
        [\<lparr>inlineData = Some \<lparr>data = base64Data, mimeType = ''image/jpeg''\<rparr>, part_text = None\<rparr>,
         \<lparr>inlineData = None, part_text = Some finalPrompt\<rparr>],
      responseModalities = [IMAGE, TEXT]\<rparr>"

text \<open>What \<open>regenerateImageWithGemini\<close> does with the response, once the call has returned.\<close>

definition regenerateImageWithGemini_response ::
    "GenerateContentResponse \<Rightarrow> string \<Rightarrow> thrown + RegenerationResult" where
  "regenerateImageWithGemini_response response finalPrompt =
     (let candidate = first_candidate response
      in case scan_parts candidate of
           Some d \<Rightarrow> Inr \<lparr>result_image = data d, result_prompt = finalPrompt\<rparr>
         | None \<Rightarrow>
             if candidate_finishReason candidate = Some ''SAFETY''
                \<or> candidate_finishReason candidate = Some ''RECITATION''
                \<or> truthy (feedback_blockReason (promptFeedback response))
             then Inl (Error (''Image regeneration was blocked. Reason: ''
                     @ interpolate (js_or (candidate_finishReason candidate)
                                          (feedback_blockReason (promptFeedback response)))
                     @ ''. Please try a different style or frame.''))
             else Inl (Error ''No image was generated by Gemini.''))"

definition regenerateImageWithGemini :: "Env \<Rightarrow> string \<Rightarrow> ArtStyle \<Rightarrow> outcome" where
  "regenerateImageWithGemini env base64Data style =
     (case getAiClient env of
        Inl e \<Rightarrow> ([], Inl e)
      | Inr ai \<Rightarrow>
          (let finalPrompt = getGeminiInstructionalPrompt style;
               request = gemini_request base64Data finalPrompt
           in case generateContent env request of
                Inl e \<Rightarrow> ([GenerateContent request], Inl e)
              | Inr response \<Rightarrow>
                  ([GenerateContent request],
                   regenerateImageWithGemini_response response finalPrompt)))"

section \<open>The text-to-image adapter\<close>

definition imagen_request :: "string \<Rightarrow> number \<Rightarrow> GenerateImagesParameters" where
  "imagen_request finalPrompt aspectRatio =
     \<lparr>images_model = ''imagen-4.0-generate-001'',
      images_prompt = finalPrompt,
      numberOfImages = 1,
      outputMimeType = ''image/jpeg'',
      config_aspectRatio = ratio_token (mapAspectRatioToImagen aspectRatio)\<rparr>"

text \<open>\<open>generatedImage?.image?.imageBytes\<close> of \<open>response.generatedImages?.[0]\<close>.\<close>

definition first_imageBytes :: "GenerateImagesResponse \<Rightarrow> string option" where
  "first_imageBytes response =
     (case generatedImages response of
        None \<Rightarrow> None
      | Some [] \<Rightarrow> None
      | Some (g # _) \<Rightarrow> (case generated_image g of None \<Rightarrow> None | Some i \<Rightarrow> imageBytes i))"

text \<open>The two \<open>throw\<close> statements that follow when the first slot carries no bytes.\<close>

definition generateImageWithImagen_failure :: "GenerateImagesResponse \<Rightarrow> thrown" where
  "generateImageWithImagen_failure response =
     (if truthy (feedback_blockReason (images_promptFeedback response)) then
        Error (''Image generation was blocked. Reason: ''
          @ interpolate (feedback_blockReason (images_promptFeedback response))
          @ ''. Please try a different frame.'')
      else Error ''No image was generated by Imagen.'')"

definition generateImageWithImagen_response ::
    "GenerateImagesResponse \<Rightarrow> string \<Rightarrow> thrown + RegenerationResult" where
  "generateImageWithImagen_response response finalPrompt =
     (case first_imageBytes response of
        None \<Rightarrow> Inl (generateImageWithImagen_failure response)
      | Some bytes \<Rightarrow>
          if bytes = [] then Inl (generateImageWithImagen_failure response)
          else Inr \<lparr>result_image = bytes, result_prompt = finalPrompt\<rparr>)"

definition generateImageWithImagen :: "Env \<Rightarrow> string \<Rightarrow> ArtStyle \<Rightarrow> number \<Rightarrow> outcome" where
  "generateImageWithImagen env basePrompt style aspectRatio =
     (case getAiClient env of
        Inl e \<Rightarrow> ([], Inl e)
      | Inr ai \<Rightarrow>
          (let finalPrompt = basePrompt @ getImagenStyleSuffix style;
               request = imagen_request finalPrompt aspectRatio
           in case generateImages env request of
                Inl e \<Rightarrow> ([GenerateImages request], Inl e)
              | Inr response \<Rightarrow>
                  ([GenerateImages request],
                   generateImageWithImagen_response response finalPrompt)))"

section \<open>The dispatcher\<close>

record RegenerateOptions =
  model :: RegenerationModel
  style :: ArtStyle
  aspectRatio :: number
  base64Data :: "string option"
  prompt :: "string option"

text \<open>The body of the \<open>try\<close> block.\<close>

definition regenerateImage_try :: "Env \<Rightarrow> RegenerateOptions \<Rightarrow> outcome" where
  "regenerateImage_try env options =
     (if model options = imagen then
        (case prompt options of
           None \<Rightarrow> ([], Inl (Error ''A text prompt is required for the Imagen model.''))
         | Some p \<Rightarrow>
             if p = [] then ([], Inl (Error ''A text prompt is required for the Imagen model.''))
             else generateImageWithImagen env p (style options) (aspectRatio options))
      else
        (case base64Data options of
           None \<Rightarrow> ([], Inl (Error ''Base64 image data is required for the Gemini model.''))
         | Some d \<Rightarrow>
             if d = [] then ([], Inl (Error ''Base64 image data is required for the Gemini model.''))
             else regenerateImageWithGemini env d (style options)))"

text \<open>The \<open>catch\<close> block: it always throws, and this is what it throws.\<close>

definition regenerateImage_catch :: "RegenerationModel \<Rightarrow> thrown \<Rightarrow> thrown" where
  "regenerateImage_catch m error =
     (case error of
        Error message \<Rightarrow>
          if str_includes message ''API key not valid'' then
            Error ''Your Gemini API key is not valid. Please check your configuration.''
          else if str_includes message ''429'' \<or> str_includes message ''RESOURCE_EXHAUSTED'' then
            Error ''API rate limit or quota exceeded. Please try again later.''
          else if str_includes message ''blocked'' then error
          else Error (''Failed to regenerate image with '' @ model_name m
                 @ ''. Check the console for details.'')
      | NonError v \<Rightarrow>
          Error (''Failed to regenerate image with '' @ model_name m
            @ ''. Check the console for details.''))"

definition regenerateImage :: "Env \<Rightarrow> RegenerateOptions \<Rightarrow> outcome" where
  "regenerateImage env options =
     (case regenerateImage_try env options of
        (calls, Inr result) \<Rightarrow> (calls, Inr result)
      | (calls, Inl error) \<Rightarrow> (calls, Inl (regenerateImage_catch (model options) error)))"

section \<open>Editing with a free-form prompt\<close>

definition editImage_response ::
    "GenerateContentResponse \<Rightarrow> string \<Rightarrow> thrown + RegenerationResult" where
  \<open>editImage_response response p =
     (let candidate = first_candidate response
      in case scan_parts candidate of
           Some d \<Rightarrow>
             Inr \<lparr>result_image = data d,
                  result_prompt = ''Edited with user prompt: "'' @ p @ ''"''\<rparr>
         | None \<Rightarrow>
             if candidate_finishReason candidate = Some ''SAFETY''
                \<or> candidate_finishReason candidate = Some ''RECITATION''
                \<or> truthy (feedback_blockReason (promptFeedback response))
             then Inl (Error (''Image editing was blocked. Reason: ''
                     @ interpolate (js_or (candidate_finishReason candidate)
                                          (feedback_blockReason (promptFeedback response)))
                     @ ''. Please modify your prompt and try again.''))
             else Inl (Error ''No image was generated in the API response for editing.''))\<close>

definition editImage_try :: "Env \<Rightarrow> string \<Rightarrow> string \<Rightarrow> outcome" where
  "editImage_try env base64 p =
     (case getAiClient env of
        Inl e \<Rightarrow> ([], Inl e)
      | Inr ai \<Rightarrow>
          (let request = gemini_request base64 p
           in case generateContent env request of
                Inl e \<Rightarrow> ([GenerateContent request], Inl e)
              | Inr response \<Rightarrow> ([GenerateContent request], editImage_response response p)))"

definition editImage_catch :: "thrown \<Rightarrow> thrown" where
  "editImage_catch error =
     (case error of
        Error message \<Rightarrow>
          if str_includes message ''API key not valid'' then
            Error ''Your Gemini API key is not valid. Please check your configuration.''
          else if str_includes message ''429'' \<or> str_includes message ''RESOURCE_EXHAUSTED'' then
            Error ''API rate limit or quota exceeded. Please try again later.''
          else if str_includes message ''blocked'' then error
          else Error ''Failed to edit image with Gemini. Check the console for details.''
      | NonError v \<Rightarrow> Error ''Failed to edit image with Gemini. Check the console for details.'')"

definition editImage :: "Env \<Rightarrow> string \<Rightarrow> string \<Rightarrow> outcome" where
  "editImage env base64 p =
     (case editImage_try env base64 p of
        (calls, Inr result) \<Rightarrow> (calls, Inr result)
      | (calls, Inl error) \<Rightarrow> (calls, Inl (editImage_catch error)))"

section \<open>The specification's vocabulary\<close>

text \<open>
  The reference table as the specification lists it, and what it means for a token to be
  the nearest supported ratio: it stands at some position of the table, no reference is
  closer to the input than its value, and every reference listed before it is strictly
  farther away.
\<close>

definition reference_ratios :: "(string \<times> real) list" where
  "reference_ratios =
     [(''1:1'', 1), (''4:3'', 4 / 3), (''3:4'', 3 / 4), (''16:9'', 16 / 9), (''9:16'', 9 / 16)]"

definition nearest_reference :: "real \<Rightarrow> string \<Rightarrow> bool" where
  "nearest_reference ratio token =
     list_ex (\<lambda>i. fst (reference_ratios ! i) = token
                \<and> list_all (\<lambda>r. \<bar>ratio - snd (reference_ratios ! i)\<bar> \<le> \<bar>ratio - snd r\<bar>)
                     reference_ratios
                \<and> list_all (\<lambda>r. \<bar>ratio - snd (reference_ratios ! i)\<bar> < \<bar>ratio - snd r\<bar>)
                     (take i reference_ratios))
       [0..<length reference_ratios]"

text \<open>
  The doubles that the table holds, and the distance that the loop computes for a finite
  input: the rounded absolute difference to such a double.
\<close>

fun reference_double :: "SupportedRatio \<Rightarrow> real" where
  "reference_double Ratio_1_1 = 1"
| "reference_double Ratio_4_3 = 6004799503160661 / 4503599627370496"
| "reference_double Ratio_3_4 = 3 / 4"
| "reference_double Ratio_16_9 = 8006399337547548 / 4503599627370496"
| "reference_double Ratio_9_16 = 9 / 16"

definition rounded_distance :: "real \<Rightarrow> SupportedRatio \<Rightarrow> real" where
  "rounded_distance x k = round_to_double \<bar>x - reference_double k\<bar>"


section \<open>Test doubles\<close>

text \<open>
  A world with a credential whose two remote operations give fixed answers, some
  responses, and two requests.
\<close>

definition mock_env ::
    "thrown + GenerateContentResponse \<Rightarrow> thrown + GenerateImagesResponse \<Rightarrow> Env" where
  "mock_env content_answer images_answer =
     \<lparr>API_KEY = Some ''test-key'',
      generateContent = (\<lambda>request. content_answer),
      generateImages = (\<lambda>request. images_answer)\<rparr>"

definition throwing_env :: "string \<Rightarrow> Env" where
  "throwing_env message = mock_env (Inl (Error message)) (Inl (Error message))"

definition gemini_options :: RegenerateOptions where
  "gemini_options =
     \<lparr>model = gemini, style = ANIME, aspectRatio = round64 (16 / 9),
      base64Data = Some ''/9j/4AAQSkZJRg=='', prompt = None\<rparr>"

definition imagen_options :: RegenerateOptions where
  "imagen_options =
     \<lparr>model = imagen, style = ANIME, aspectRatio = round64 (16 / 9),
      base64Data = None, prompt = Some ''A red bicycle leaning on a wall''\<rparr>"

definition text_only_candidate :: "string option \<Rightarrow> Candidate" where
  "text_only_candidate reason =
     \<lparr>content = Some \<lparr>parts = Some [\<lparr>inlineData = None, part_text = Some ''No picture this time.''\<rparr>]\<rparr>,
      finishReason = reason\<rparr>"

definition safety_response :: GenerateContentResponse where
  "safety_response =
     \<lparr>candidates = Some [text_only_candidate (Some ''SAFETY'')], promptFeedback = None\<rparr>"

definition stop_with_block_response :: GenerateContentResponse where
  "stop_with_block_response =
     \<lparr>candidates = Some [text_only_candidate (Some ''STOP'')],
      promptFeedback = Some \<lparr>blockReason = Some ''PROHIBITED_CONTENT''\<rparr>\<rparr>"

definition quota_block_response :: GenerateContentResponse where
  "quota_block_response =
     \<lparr>candidates = None, promptFeedback = Some \<lparr>blockReason = Some ''RESOURCE_EXHAUSTED''\<rparr>\<rparr>"

definition two_image_response :: GenerateContentResponse where
  "two_image_response =
     \<lparr>candidates = Some
        [\<lparr>content = Some \<lparr>parts = Some
            [\<lparr>inlineData = None, part_text = Some ''Here you are.''\<rparr>,
             \<lparr>inlineData = Some \<lparr>data = ''Zmlyc3Q='', mimeType = ''image/png''\<rparr>, part_text = None\<rparr>,
             \<lparr>inlineData = Some \<lparr>data = ''c2Vjb25k'', mimeType = ''image/png''\<rparr>, part_text = None\<rparr>]\<rparr>,
          finishReason = Some ''STOP''\<rparr>],
      promptFeedback = None\<rparr>"

definition one_image_response :: GenerateImagesResponse where
  "one_image_response =
     \<lparr>generatedImages = Some [\<lparr>generated_image = Some \<lparr>imageBytes = Some ''aW1hZ2U=''\<rparr>\<rparr>],
      images_promptFeedback = None\<rparr>"

definition no_images :: GenerateImagesResponse where
  "no_images = \<lparr>generatedImages = None, images_promptFeedback = None\<rparr>"

section \<open>Facts used for evaluation\<close>

lemmas ArtStyle_defs =
  REALISTIC_def CARTOON_def THREE_D_PIXAR_def ANIME_def VINTAGE_PHOTO_def CLAYMATION_def
  FANTASY_ART_def NEON_PUNK_def

lemmas includes_simps = str_includes_def sublist_Cons_right

lemmas mock_defs = mock_env_def throwing_env_def gemini_options_def imagen_options_def

lemmas response_defs =
  text_only_candidate_def safety_response_def stop_with_block_response_def quota_block_response_def
  two_image_response_def one_image_response_def no_images_def

lemmas reading_defs =
  first_candidate_def candidate_parts_def candidate_finishReason_def feedback_blockReason_def
  scan_parts_def truthy_def js_or_def interpolate_def

lemmas service_defs =
  regenerateImage_def regenerateImage_try_def regenerateImage_catch_def
  regenerateImageWithGemini_def generateImageWithImagen_def getAiClient_def

lemmas loop_simps = mapAspectRatioToImagen_def supportedRatios_keys_def Let_def

lemma str_includes_middle: "str_includes (pre @ s @ post) s"
  by (simp add: str_includes_def)

section \<open>The style catalogue is total\<close>

lemma named_styles: "length ArtStyle_values = 8 \<and> distinct ArtStyle_values"
  by (simp add: ArtStyle_values_def ArtStyle_defs)

lemma catalogue_distinct:
  "distinct (map getGeminiInstructionalPrompt ArtStyle_values
             @ map getImagenStyleSuffix ArtStyle_values)"
  by (simp add: ArtStyle_values_def ArtStyle_defs getGeminiInstructionalPrompt_def
      getImagenStyleSuffix_def)

lemma catalogue_named_nonempty:
  "s \<in> set ArtStyle_values \<Longrightarrow> getGeminiInstructionalPrompt s \<noteq> [] \<and> getImagenStyleSuffix s \<noteq> []"
  by (auto simp: ArtStyle_values_def ArtStyle_defs getGeminiInstructionalPrompt_def
      getImagenStyleSuffix_def)

lemma default_prompt:
  "s \<notin> set ArtStyle_values \<Longrightarrow>
   getGeminiInstructionalPrompt s
     = (''Recreate this image in the style of a high-detail, cinematic image with the theme of ''
         @ [CHR 0x27]) @ s @ ([CHR 0x27] @ ''.'')"
  by (simp add: ArtStyle_values_def getGeminiInstructionalPrompt_def)

lemma default_suffix:
  "s \<notin> set ArtStyle_values \<Longrightarrow> getImagenStyleSuffix s = '', in the style of '' @ s @ ''.''"
  by (simp add: ArtStyle_values_def getImagenStyleSuffix_def)

lemma catalogue_default:
  assumes "s \<notin> set ArtStyle_values"
  shows "getGeminiInstructionalPrompt s \<noteq> [] \<and> str_includes (getGeminiInstructionalPrompt s) s
       \<and> getImagenStyleSuffix s \<noteq> [] \<and> str_includes (getImagenStyleSuffix s) s"
proof -
  have "str_includes (getGeminiInstructionalPrompt s) s"
    unfolding default_prompt[OF assms] by (rule str_includes_middle)
  moreover have "str_includes (getImagenStyleSuffix s) s"
    unfolding default_suffix[OF assms] by (rule str_includes_middle)
  moreover have "getGeminiInstructionalPrompt s \<noteq> []"
    unfolding default_prompt[OF assms] by simp
  moreover have "getImagenStyleSuffix s \<noteq> []"
    unfolding default_suffix[OF assms] by simp
  ultimately show ?thesis by blast
qed

text \<open>
  Claim C8. The enumeration has eight members. The sixteen strings that the two catalogue
  functions give for them are non-empty and pairwise distinct (no two styles share an
  instruction or a suffix, and no instruction is a suffix). For every other style value
  both functions return a non-empty string in which the style's own label occurs. Both are
  total functions without an error result.
\<close>

theorem style_catalogue_total:
  "length ArtStyle_values = 8 \<and> distinct ArtStyle_values
   \<and> distinct (map getGeminiInstructionalPrompt ArtStyle_values
              @ map getImagenStyleSuffix ArtStyle_values)
   \<and> (\<forall>s \<in> set ArtStyle_values.
         getGeminiInstructionalPrompt s \<noteq> [] \<and> getImagenStyleSuffix s \<noteq> [])
   \<and> (\<forall>s. s \<notin> set ArtStyle_values \<longrightarrow>
         getGeminiInstructionalPrompt s \<noteq> [] \<and> str_includes (getGeminiInstructionalPrompt s) s
         \<and> getImagenStyleSuffix s \<noteq> [] \<and> str_includes (getImagenStyleSuffix s) s)"
  using named_styles catalogue_distinct catalogue_named_nonempty catalogue_default by blast

theorem style_catalogue_total_witness:
  "NEON_PUNK \<in> set ArtStyle_values
   \<and> getGeminiInstructionalPrompt NEON_PUNK \<noteq> [] \<and> getImagenStyleSuffix NEON_PUNK \<noteq> []
   \<and> ''Watercolor'' \<notin> set ArtStyle_values
   \<and> str_includes (getGeminiInstructionalPrompt ''Watercolor'') ''Watercolor''
   \<and> str_includes (getImagenStyleSuffix ''Watercolor'') ''Watercolor''
   \<and> getGeminiInstructionalPrompt ''Watercolor'' \<noteq> [] \<and> getImagenStyleSuffix ''Watercolor'' \<noteq> []"
proof -
  have a: "NEON_PUNK \<in> set ArtStyle_values" by (simp add: ArtStyle_values_def)
  have b: "''Watercolor'' \<notin> set ArtStyle_values" by (simp add: ArtStyle_values_def ArtStyle_defs)
  show ?thesis using style_catalogue_total a b by blast
qed

section \<open>Rounding to a double\<close>

text \<open>The binade of a positive real, and what rounding half to even does at and between
  integers.\<close>

lemma binade_bounds:
  assumes "0 < x"
  shows "2 powi binade x \<le> x \<and> x < 2 powi (binade x + 1)"
proof (cases "1 \<le> x")
  case True
  define n where "n = \<lfloor>x\<rfloor>"
  have n: "0 < n" "of_int n \<le> x" "x < of_int n + 1"
    using True by (auto simp: n_def)
  from bitlen_bounds[OF n(1)] have b: "2 ^ nat (bitlen n - 1) \<le> n" "n < 2 ^ nat (bitlen n)"
    by auto
  have b1: "1 \<le> bitlen n" using n(1) by (auto simp: bitlen_alt_def)
  have e: "binade x = bitlen n - 1" using True by (simp add: binade_def n_def)
  have "(2::real) powi (bitlen n - 1) = 2 ^ nat (bitlen n - 1)"
    using b1 by (simp add: power_int_def)
  also have "\<dots> = of_int (2 ^ nat (bitlen n - 1))" by simp
  also have "\<dots> \<le> of_int n" using b(1) by (simp only: of_int_le_iff)
  finally have lo: "2 powi (bitlen n - 1) \<le> x" using n(2) by linarith
  have "n + 1 \<le> 2 ^ nat (bitlen n)" using b(2) by simp
  then have "real_of_int (n + 1) \<le> of_int (2 ^ nat (bitlen n))" by (simp only: of_int_le_iff)
  also have "\<dots> = 2 powi (bitlen n)" using b1 by (simp add: power_int_def)
  finally have hi: "x < 2 powi (bitlen n)" using n(3) by simp
  show ?thesis using lo hi by (simp add: e)
next
  case False
  define N where "N = \<lceil>1 / x\<rceil>"
  define k where "k = bitlen (N - 1)"
  have inv: "1 < 1 / x" using assms False by simp
  have N: "1 / x \<le> of_int N" "of_int N - 1 < 1 / x" "2 \<le> N"
    using inv by (auto simp: N_def ceiling_le_iff le_ceiling_iff Ints_def) linarith+
  have pos: "0 < N - 1" using N(3) by simp
  from bitlen_bounds[OF pos] have b: "2 ^ nat (k - 1) \<le> N - 1" "N - 1 < 2 ^ nat k"
    by (auto simp: k_def)
  have k1: "1 \<le> k" using pos by (auto simp: k_def bitlen_alt_def)
  have e: "binade x = - k" using False by (simp add: binade_def N_def k_def)
  have "N \<le> 2 ^ nat k" using b(2) by simp
  then have "real_of_int N \<le> real_of_int (2 ^ nat k)" by (simp only: of_int_le_iff)
  also have "real_of_int (2 ^ nat k) = 2 ^ nat k" by simp
  finally have "1 / x \<le> 2 ^ nat k" using N(1) by linarith
  then have "1 / 2 ^ nat k \<le> x" using assms by (simp add: field_simps)
  moreover have "(2::real) powi (- k) = 1 / 2 ^ nat k"
    using k1 by (simp add: power_int_def field_simps)
  ultimately have lo: "2 powi (- k) \<le> x"
    by (simp only:)
  have "real_of_int (2 ^ nat (k - 1)) \<le> real_of_int (N - 1)"
    using b(1) by (simp only: of_int_le_iff)
  moreover have "real_of_int (2 ^ nat (k - 1)) = 2 ^ nat (k - 1)" by simp
  ultimately have "2 ^ nat (k - 1) < 1 / x" using N(2) by simp
  then have lt: "x < 1 / 2 ^ nat (k - 1)" using assms by (simp add: field_simps)
  have "(2::real) powi (- k + 1) = 1 / 2 ^ nat (k - 1)"
  proof (cases "k = 1")
    case True
    then show ?thesis by simp
  next
    case False
    with k1 have "- k + 1 < 0" "nat (- (- k + 1)) = nat (k - 1)" by auto
    then show ?thesis by (simp add: power_int_def field_simps)
  qed
  with lt have hi: "x < 2 powi (- k + 1)" by (simp only:)
  show ?thesis using lo hi by (simp add: e)
qed

lemma binade_le: "0 < x \<Longrightarrow> x < 2 powi (E + 1) \<Longrightarrow> binade x \<le> E"
proof (rule ccontr)
  assume x: "0 < x" "x < 2 powi (E + 1)" and "\<not> binade x \<le> E"
  then have "E + 1 \<le> binade x" by simp
  then have "(2::real) powi (E + 1) \<le> 2 powi binade x"
    by (intro power_int_increasing) simp_all
  with binade_bounds[OF x(1)] x(2) show False by linarith
qed

lemma binade_ge: "2 powi E \<le> x \<Longrightarrow> E \<le> binade x"
proof (rule ccontr)
  assume x: "2 powi E \<le> x" and "\<not> E \<le> binade x"
  then have "binade x + 1 \<le> E" by simp
  then have "(2::real) powi (binade x + 1) \<le> 2 powi E"
    by (intro power_int_increasing) simp_all
  moreover have "0 < x" using x(1) zero_less_power_int[of "2::real" E] by linarith
  ultimately show False using binade_bounds[of x] x(1) by linarith
qed

lemma rhe_of_int: "round_half_even (of_int k) = k"
  by (simp add: round_half_even_def)

lemma rhe_le: "q \<le> of_int K \<Longrightarrow> round_half_even q \<le> K"
proof -
  assume q: "q \<le> of_int K"
  show ?thesis
  proof (cases "q = of_int K")
    case True
    then show ?thesis by (simp add: rhe_of_int)
  next
    case False
    with q have "q < of_int K" by simp
    then have "\<lfloor>q\<rfloor> < K" by (simp add: floor_less_iff)
    then show ?thesis by (simp add: round_half_even_def Let_def)
  qed
qed

lemma rhe_ge: "of_int K \<le> q \<Longrightarrow> K \<le> round_half_even q"
proof -
  assume "of_int K \<le> q"
  then have "K \<le> \<lfloor>q\<rfloor>" by (simp add: le_floor_iff)
  then show ?thesis by (simp add: round_half_even_def Let_def)
qed

lemma rhe_minus: "round_half_even (- q) = - round_half_even q"
proof (cases "q = of_int \<lfloor>q\<rfloor>")
  case True
  then obtain k where "q = of_int k" ..
  then have "- q = of_int (- k)" by simp
  then show ?thesis unfolding \<open>q = of_int k\<close> by (simp only: rhe_of_int)
next
  case False
  define n where "n = \<lfloor>q\<rfloor>"
  have r: "of_int n < q" "q < of_int n + 1"
    using False by (auto simp: n_def less_le)  linarith+
  then have f: "\<lfloor>- q\<rfloor> = - n - 1"
    by (intro floor_unique) simp_all
  show ?thesis
    using r unfolding round_half_even_def Let_def f n_def[symmetric]
    by (auto simp: field_simps)
qed

text \<open>
  Rounding commutes with negation and with the absolute value. A rounded value never
  crosses a multiple of a grid that is at least as coarse as the grid of the binade of its
  argument, so two arguments with two such multiples between them round to different
  doubles, and a double of a binade is a multiple of the grid of that binade.
\<close>

lemma ulp_exponent_minus: "ulp_exponent (- x) = ulp_exponent x"
  by (simp add: ulp_exponent_def)

lemma round_to_double_minus: "round_to_double (- x) = - round_to_double x"
  by (simp add: round_to_double_def ulp_exponent_minus rhe_minus)

lemma round_to_double_abs: "\<bar>round_to_double x\<bar> = round_to_double \<bar>x\<bar>"
proof (cases "0 \<le> x")
  case True
  have "0 \<le> round_to_double x"
  proof (cases "x = 0")
    case False
    with True have "of_int 0 \<le> x / 2 powi ulp_exponent x" by simp
    then have "0 \<le> round_half_even (x / 2 powi ulp_exponent x)" by (rule rhe_ge)
    then show ?thesis by (simp add: round_to_double_def)
  qed (simp add: round_to_double_def)
  with True show ?thesis by simp
next
  case False
  then have neg: "x < 0" by simp
  have "round_to_double x \<le> 0"
  proof -
    from neg have "x / 2 powi ulp_exponent x \<le> of_int 0"
      by (simp add: divide_nonpos_pos)
    then have "round_half_even (x / 2 powi ulp_exponent x) \<le> 0" by (rule rhe_le)
    then show ?thesis using neg
      by (simp add: round_to_double_def mult_nonpos_nonneg)
  qed
  with neg show ?thesis using round_to_double_minus[of x] by simp
qed

lemma ulp_exponent_le:
  assumes "0 < y" "y < 2 powi (E + 1)" "- 1022 \<le> E"
  shows "ulp_exponent y \<le> E - 52"
  using binade_le[OF assms(1,2)] assms(1,3) by (simp add: ulp_exponent_def)

lemma grid_coarser:
  assumes "g \<le> t"
  shows "of_int k * 2 powi t = of_int (k * 2 ^ nat (t - g)) * (2::real) powi g"
proof -
  have "(2::real) powi t = 2 powi (t - g) * 2 powi g"
    by (simp flip: power_int_add)
  also have "(2::real) powi (t - g) = 2 ^ nat (t - g)"
    using assms by (simp add: power_int_def)
  finally show ?thesis by simp
qed

lemma round_to_double_upper:
  assumes "0 \<le> y" "y < 2 powi (E + 1)" "- 1022 \<le> E" "y \<le> of_int k * 2 powi (E - 52)"
  shows "round_to_double y \<le> of_int k * 2 powi (E - 52)"
proof (cases "y = 0")
  case True
  with assms(4) show ?thesis by (simp add: round_to_double_def)
next
  case False
  with assms(1) have pos: "0 < y" by simp
  define g where "g = ulp_exponent y"
  have g: "g \<le> E - 52" unfolding g_def by (rule ulp_exponent_le[OF pos assms(2,3)])
  define K where "K = k * 2 ^ nat (E - 52 - g)"
  have m: "of_int k * 2 powi (E - 52) = of_int K * (2::real) powi g"
    unfolding K_def by (rule grid_coarser[OF g])
  have p: "(0::real) < 2 powi g" by simp
  have "y / 2 powi g \<le> of_int K"
    using assms(4) p unfolding m by (simp add: field_simps)
  then have "round_half_even (y / 2 powi g) \<le> K" by (rule rhe_le)
  then have "real_of_int (round_half_even (y / 2 powi g)) * 2 powi g \<le> of_int K * 2 powi g"
    using p by (simp only: mult_le_cancel_right_pos of_int_le_iff)
  then show ?thesis using False unfolding m by (simp add: round_to_double_def g_def)
qed

lemma round_to_double_lower:
  assumes "0 \<le> y" "y < 2 powi (E + 1)" "- 1022 \<le> E" "of_int k * 2 powi (E - 52) \<le> y"
  shows "of_int k * 2 powi (E - 52) \<le> round_to_double y"
proof (cases "y = 0")
  case True
  with assms(4) show ?thesis by (simp add: round_to_double_def)
next
  case False
  with assms(1) have pos: "0 < y" by simp
  define g where "g = ulp_exponent y"
  have g: "g \<le> E - 52" unfolding g_def by (rule ulp_exponent_le[OF pos assms(2,3)])
  define K where "K = k * 2 ^ nat (E - 52 - g)"
  have m: "of_int k * 2 powi (E - 52) = of_int K * (2::real) powi g"
    unfolding K_def by (rule grid_coarser[OF g])
  have p: "(0::real) < 2 powi g" by simp
  have "of_int K \<le> y / 2 powi g"
    using assms(4) p unfolding m by (simp add: field_simps)
  then have "K \<le> round_half_even (y / 2 powi g)" by (rule rhe_ge)
  then have "of_int K * 2 powi g \<le> real_of_int (round_half_even (y / 2 powi g)) * 2 powi g"
    using p by (simp only: mult_le_cancel_right_pos of_int_le_iff)
  then show ?thesis using False unfolding m by (simp add: round_to_double_def g_def)
qed

lemma round_to_double_exact:
  assumes "0 \<le> y" "y < 2 powi (E + 1)" "- 1022 \<le> E" "y = of_int k * 2 powi (E - 52)"
  shows "round_to_double y = y"
  using round_to_double_upper[OF assms(1-3), of k] round_to_double_lower[OF assms(1-3), of k] assms(4)
  by simp

lemma round_to_double_less:
  assumes "0 \<le> y" "y + 2 * 2 powi (E - 52) \<le> z" "z < 2 powi (E + 1)" "- 1022 \<le> E"
  shows "round_to_double y < round_to_double z"
proof -
  define G :: real where "G = 2 powi (E - 52)"
  have G: "0 < G" by (simp add: G_def)
  define k where "k = \<lceil>y / G\<rceil>"
  have k: "y / G \<le> of_int k" "of_int k < y / G + 1"
    unfolding k_def by linarith+
  have m1: "y \<le> of_int k * G" "of_int k * G < y + G"
    using k G by (simp_all add: field_simps)
  have yz: "y < 2 powi (E + 1)" "0 \<le> z"
    using assms(1-3) G unfolding G_def by linarith+
  have "round_to_double y \<le> of_int k * 2 powi (E - 52)"
    using m1(1) unfolding G_def by (rule round_to_double_upper[OF assms(1) yz(1) assms(4)])
  moreover have "of_int (k + 1) * 2 powi (E - 52) \<le> z"
    using m1(2) assms(2) unfolding G_def by (simp add: algebra_simps)
  then have "of_int (k + 1) * 2 powi (E - 52) \<le> round_to_double z"
    by (rule round_to_double_lower[OF yz(2) assms(3,4)])
  moreover have "of_int k * G < of_int (k + 1) * G" using G by (simp add: algebra_simps)
  ultimately show ?thesis unfolding G_def by linarith
qed

lemma is_double_fixed: "is_double x \<Longrightarrow> round_to_double x = x"
  by (auto simp: is_double_def round64_def Let_def split: if_splits)

lemma double_grid:
  assumes "is_double x" "2 powi e \<le> \<bar>x\<bar>" "- 1022 \<le> e"
  shows "\<exists>n::int. x = of_int n * 2 powi (e - 52)"
proof -
  have "(0::real) < 2 powi e" by simp
  with assms(2) have "0 < \<bar>x\<bar>" by linarith
  then have nz: "x \<noteq> 0" by simp
  define g where "g = ulp_exponent x"
  have "e \<le> binade \<bar>x\<bar>" using assms(2) by (rule binade_ge)
  then have g: "e - 52 \<le> g" by (simp add: g_def ulp_exponent_def)
  have "x = of_int (round_half_even (x / 2 powi g)) * 2 powi g"
    using is_double_fixed[OF assms(1)] nz by (simp add: round_to_double_def g_def)
  also have "\<dots> = of_int (round_half_even (x / 2 powi g) * 2 ^ nat (g - (e - 52))) * 2 powi (e - 52)"
    by (rule grid_coarser[OF g])
  finally show ?thesis by blast
qed

lemma round64_in_range:
  assumes "\<bar>y\<bar> \<le> 2 ^ 1023"
  shows "round64 y = Finite (round_to_double y)"
proof -
  have "round_to_double \<bar>y\<bar> \<le> of_int (2 ^ 52) * 2 powi (1023 - 52)"
    by (rule round_to_double_upper) (use assms in simp_all)
  then have "\<bar>round_to_double y\<bar> \<le> 2 ^ 1023"
    by (simp add: round_to_double_abs)
  moreover have "(2::real) ^ 1023 < 2 ^ 1024" by simp
  ultimately have "round_to_double y < 2 ^ 1024" "- (2 ^ 1024) < round_to_double y"
    by linarith+
  then show ?thesis by (simp add: round64_def Let_def)
qed

lemma is_doubleI:
  assumes "\<bar>y\<bar> < 2 powi (E + 1)" "- 1022 \<le> E" "E \<le> 1022" "y = of_int k * 2 powi (E - 52)"
  shows "is_double y"
proof -
  have "\<bar>y\<bar> = real_of_int \<bar>k\<bar> * 2 powi (E - 52)"
    unfolding assms(4) by (simp add: abs_mult)
  then have "round_to_double \<bar>y\<bar> = \<bar>y\<bar>"
    by (rule round_to_double_exact[OF abs_ge_zero assms(1,2)])
  then have fixed: "round_to_double y = y"
    using round_to_double_minus[of y] by (cases "0 \<le> y") (simp_all add: abs_if)
  have "(2::real) powi (E + 1) \<le> 2 powi 1023"
    using assms(3) by (intro power_int_increasing) simp_all
  then have "\<bar>y\<bar> \<le> 2 ^ 1023" using assms(1) by simp
  from round64_in_range[OF this] fixed show ?thesis by (simp add: is_double_def)
qed

lemma round_to_double_eval:
  assumes "2 powi e \<le> \<bar>y\<bar>" "\<bar>y\<bar> < 2 powi (e + 1)" "- 1022 \<le> e"
  shows "round_to_double y = of_int (round_half_even (y / 2 powi (e - 52))) * 2 powi (e - 52)"
proof -
  have "(0::real) < 2 powi e" by simp
  with assms(1) have pos: "0 < \<bar>y\<bar>" by linarith
  have "binade \<bar>y\<bar> = e"
    using binade_le[OF pos assms(2)] binade_ge[OF assms(1)] by simp
  then have "ulp_exponent y = e - 52" using assms(3) by (simp add: ulp_exponent_def)
  with pos show ?thesis by (simp add: round_to_double_def)
qed

section \<open>The distances that the loop compares\<close>

lemma binade_unit: "1 \<le> x \<Longrightarrow> x < 2 \<Longrightarrow> binade x = 0"
  using binade_le[of x 0] binade_ge[of 0 x] by simp

lemma binade_half: "1 / 2 \<le> x \<Longrightarrow> x < 1 \<Longrightarrow> binade x = - 1"
  using binade_le[of x "- 1"] binade_ge[of "- 1" x] by simp

lemma round64_finite:
  assumes "\<bar>y\<bar> \<le> 2 ^ 49"
  shows "round64 y = Finite (round_to_double y)"
proof -
  have "round_to_double \<bar>y\<bar> \<le> of_int (2 ^ 52) * 2 powi (49 - 52)"
    by (rule round_to_double_upper) (use assms in simp_all)
  then have "\<bar>round_to_double y\<bar> \<le> 2 ^ 49"
    by (simp add: round_to_double_abs)
  moreover have "(2::real) ^ 49 < 2 ^ 1024" by simp
  ultimately have "round_to_double y < 2 ^ 1024" "- (2 ^ 1024) < round_to_double y"
    by linarith+
  then show ?thesis by (simp add: round64_def Let_def)
qed

lemma supportedRatios_values: "supportedRatios k = Finite (reference_double k)"
proof (cases k)
  case Ratio_1_1
  then show ?thesis by simp
next
  case Ratio_4_3
  have "round_to_double (4 / 3) = 6004799503160661 / 4503599627370496"
    by (simp add: round_to_double_def ulp_exponent_def binade_unit round_half_even_def Let_def)
  then show ?thesis using Ratio_4_3 by (simp add: round64_finite)
next
  case Ratio_3_4
  have "round_to_double (3 / 4) = 3 / 4"
    by (simp add: round_to_double_def ulp_exponent_def binade_half round_half_even_def Let_def)
  then show ?thesis using Ratio_3_4 by (simp add: round64_finite)
next
  case Ratio_16_9
  have "round_to_double (16 / 9) = 8006399337547548 / 4503599627370496"
    by (simp add: round_to_double_def ulp_exponent_def binade_unit round_half_even_def Let_def)
  then show ?thesis using Ratio_16_9 by (simp add: round64_finite)
next
  case Ratio_9_16
  have "round_to_double (9 / 16) = 9 / 16"
    by (simp add: round_to_double_def ulp_exponent_def binade_half round_half_even_def Let_def)
  then show ?thesis using Ratio_9_16 by (simp add: round64_finite)
qed

lemma reference_double_bounds: "0 < reference_double k \<and> reference_double k < 2"
  by (cases k) simp_all

lemma diff_value:
  assumes "\<bar>x\<bar> \<le> 2 ^ 48"
  shows "js_abs (js_sub (Finite x) (supportedRatios k)) = Finite (rounded_distance x k)"
proof -
  have "\<bar>x - reference_double k\<bar> \<le> 2 ^ 49"
    using assms reference_double_bounds[of k] by (simp add: abs_if split: if_splits)
  then have "round64 (x - reference_double k) = Finite (round_to_double (x - reference_double k))"
    by (rule round64_finite)
  then show ?thesis
    by (simp add: supportedRatios_values rounded_distance_def round_to_double_abs)
qed

lemma rounded_less:
  assumes "0 \<le> y"
    and "(y + 1 / 8 \<le> z \<and> z < 2 ^ 49) \<or> (y + 1 / 2 ^ 52 \<le> z \<and> z < 1)"
  shows "round_to_double y < round_to_double z"
  using assms(2)
proof
  assume "y + 1 / 8 \<le> z \<and> z < 2 ^ 49"
  then show ?thesis
    using round_to_double_less[OF assms(1), of 48 z] by simp
next
  assume "y + 1 / 2 ^ 52 \<le> z \<and> z < 1"
  then show ?thesis
    using round_to_double_less[OF assms(1), of "- 1" z] by simp
qed

lemma select_1_1:
  assumes "\<bar>x\<bar> \<le> 2 ^ 48" and "\<And>j. rounded_distance x Ratio_1_1 \<le> rounded_distance x j"
  shows "mapAspectRatioToImagen (Finite x) = Ratio_1_1"
  using assms(2)[of Ratio_4_3] assms(2)[of Ratio_3_4] assms(2)[of Ratio_16_9] assms(2)[of Ratio_9_16]
  by (simp add: loop_simps diff_value[OF assms(1)] del: supportedRatios.simps)


lemma select_4_3:
  assumes "\<bar>x\<bar> \<le> 2 ^ 48"
    and "rounded_distance x Ratio_4_3 < rounded_distance x Ratio_1_1"
    and "rounded_distance x Ratio_4_3 \<le> rounded_distance x Ratio_3_4"
    and "rounded_distance x Ratio_4_3 \<le> rounded_distance x Ratio_16_9"
    and "rounded_distance x Ratio_4_3 \<le> rounded_distance x Ratio_9_16"
  shows "mapAspectRatioToImagen (Finite x) = Ratio_4_3"
  using assms(2-) by (simp add: loop_simps diff_value[OF assms(1)] del: supportedRatios.simps)

lemma select_3_4:
  assumes "\<bar>x\<bar> \<le> 2 ^ 48"
    and "rounded_distance x Ratio_3_4 < rounded_distance x Ratio_1_1"
    and "rounded_distance x Ratio_3_4 < rounded_distance x Ratio_4_3"
    and "rounded_distance x Ratio_3_4 \<le> rounded_distance x Ratio_16_9"
    and "rounded_distance x Ratio_3_4 \<le> rounded_distance x Ratio_9_16"
  shows "mapAspectRatioToImagen (Finite x) = Ratio_3_4"
  using assms(2-) by (auto simp: loop_simps diff_value[OF assms(1)] simp del: supportedRatios.simps)

lemma select_16_9:
  assumes "\<bar>x\<bar> \<le> 2 ^ 48"
    and "rounded_distance x Ratio_16_9 < rounded_distance x Ratio_1_1"
    and "rounded_distance x Ratio_16_9 < rounded_distance x Ratio_4_3"
    and "rounded_distance x Ratio_16_9 < rounded_distance x Ratio_3_4"
    and "rounded_distance x Ratio_16_9 \<le> rounded_distance x Ratio_9_16"
  shows "mapAspectRatioToImagen (Finite x) = Ratio_16_9"
  using assms(2-) by (auto simp: loop_simps diff_value[OF assms(1)] simp del: supportedRatios.simps)

lemma select_9_16:
  assumes "\<bar>x\<bar> \<le> 2 ^ 48"
    and "rounded_distance x Ratio_9_16 < rounded_distance x Ratio_1_1"
    and "rounded_distance x Ratio_9_16 < rounded_distance x Ratio_4_3"
    and "rounded_distance x Ratio_9_16 < rounded_distance x Ratio_3_4"
    and "rounded_distance x Ratio_9_16 < rounded_distance x Ratio_16_9"
  shows "mapAspectRatioToImagen (Finite x) = Ratio_9_16"
  using assms(2-) by (auto simp: loop_simps diff_value[OF assms(1)] simp del: supportedRatios.simps)

lemma double_grid_52:
  assumes "is_double x" "1 \<le> x"
  shows "\<exists>n::int. x = of_int n / 2 ^ 52"
proof -
  from double_grid[OF assms(1), of 0] assms(2) obtain n :: int where "x = of_int n * 2 powi (0 - 52)"
    by auto
  then have "x = of_int n / 2 ^ 52" by (simp add: power_int_minus_divide)
  then show ?thesis ..
qed

lemma double_grid_53:
  assumes "is_double x" "1 / 2 \<le> x"
  shows "\<exists>n::int. x = of_int n / 2 ^ 53"
proof -
  have "2 powi (- 1) \<le> \<bar>x\<bar>" using assms(2) by (simp add: power_int_minus_divide)
  from double_grid[OF assms(1) this] obtain n :: int where "x = of_int n * 2 powi (- 1 - 52)"
    by auto
  then have "x = of_int n / 2 ^ 53" by (simp add: power_int_minus_divide)
  then show ?thesis ..
qed

lemma gap_pos:
  assumes "g = real_of_int m / 2 ^ 52" "0 < g"
  shows "1 / 2 ^ 52 \<le> g"
proof -
  have "0 < real_of_int m" using assms by (simp add: zero_less_divide_iff)
  then have "1 \<le> m" by simp
  then have "1 \<le> real_of_int m" by simp
  then show ?thesis unfolding assms(1) by (simp add: divide_right_mono)
qed

lemma gap_odd:
  assumes "g = real_of_int m / 2 ^ 52" "- 1 / 2 ^ 52 < g" "odd m"
  shows "1 / 2 ^ 52 \<le> g"
proof -
  have "- 1 < real_of_int m" using assms(1,2) by (simp add: field_simps)
  then have "real_of_int (- 1) < real_of_int m" by simp
  then have "- 1 < m" by (simp only: of_int_less_iff)
  with assms(3) have "1 \<le> m" by presburger
  then have "1 \<le> real_of_int m" by simp
  then show ?thesis unfolding assms(1) by (simp add: divide_right_mono)
qed

lemma region_16_9:
  assumes d: "is_double x" and lo: "14 / 9 < x" and hi: "x \<le> 2 ^ 48"
  shows "mapAspectRatioToImagen (Finite x) = Ratio_16_9"
proof -
  have fine: "1 / 2 ^ 52 \<le> 2 * x - 8006399337547548 / 4503599627370496 - 6004799503160661 / 4503599627370496"
    if "x < 2"
  proof -
    from double_grid_52[OF d] lo obtain n :: int where n: "x = of_int n / 2 ^ 52" by auto
    show ?thesis
    proof (rule gap_pos)
      show "2 * x - 8006399337547548 / 4503599627370496 - 6004799503160661 / 4503599627370496
          = real_of_int (2 * n - 14011198840708209) / 2 ^ 52"
        unfolding n by (simp add: field_simps)
      show "0 < 2 * x - 8006399337547548 / 4503599627370496 - 6004799503160661 / 4503599627370496"
        using lo by simp
    qed
  qed
  have a: "rounded_distance x Ratio_16_9 < rounded_distance x Ratio_4_3"
    unfolding rounded_distance_def
  proof (rule rounded_less)
    show "0 \<le> \<bar>x - reference_double Ratio_16_9\<bar>" by simp
    show "\<bar>x - reference_double Ratio_16_9\<bar> + 1 / 8 \<le> \<bar>x - reference_double Ratio_4_3\<bar>
          \<and> \<bar>x - reference_double Ratio_4_3\<bar> < 2 ^ 49
        \<or> \<bar>x - reference_double Ratio_16_9\<bar> + 1 / 2 ^ 52 \<le> \<bar>x - reference_double Ratio_4_3\<bar>
          \<and> \<bar>x - reference_double Ratio_4_3\<bar> < 1"
    proof (cases "x < 8006399337547548 / 4503599627370496")
      case True
      then have "x < 2" by simp
      from fine[OF this] True lo show ?thesis by simp
    next
      case False
      with hi show ?thesis by simp
    qed
  qed
  have b: "rounded_distance x Ratio_16_9 < rounded_distance x Ratio_1_1"
    unfolding rounded_distance_def by (rule rounded_less) (use lo hi in \<open>simp_all add: abs_if\<close>)
  have c: "rounded_distance x Ratio_16_9 < rounded_distance x Ratio_3_4"
    unfolding rounded_distance_def by (rule rounded_less) (use lo hi in \<open>simp_all add: abs_if\<close>)
  have e: "rounded_distance x Ratio_16_9 < rounded_distance x Ratio_9_16"
    unfolding rounded_distance_def by (rule rounded_less) (use lo hi in \<open>simp_all add: abs_if\<close>)
  show ?thesis
    by (rule select_16_9) (use lo hi a b c e in simp_all)
qed

text \<open>The mapper's result on the doubles of each of the five intervals that the midpoints
  of the references cut out, for magnitudes up to \<open>2^48\<close>.\<close>

lemma region_4_3:
  assumes d: "is_double x" and lo: "7 / 6 < x" and hi: "x < 14 / 9"
  shows "mapAspectRatioToImagen (Finite x) = Ratio_4_3"
proof -
  from double_grid_52[OF d] lo obtain n :: int where n: "x = of_int n / 2 ^ 52" by auto
  have below: "1 / 2 ^ 52 \<le> 2 * x - 1 - 6004799503160661 / 4503599627370496"
  proof (rule gap_pos)
    show "2 * x - 1 - 6004799503160661 / 4503599627370496
        = real_of_int (2 * n - 10508399130531157) / 2 ^ 52"
      unfolding n by (simp add: field_simps)
    show "0 < 2 * x - 1 - 6004799503160661 / 4503599627370496"
      using lo by simp
  qed
  have above: "1 / 2 ^ 52
      \<le> 8006399337547548 / 4503599627370496 + 6004799503160661 / 4503599627370496 - 2 * x"
  proof (rule gap_odd)
    show "8006399337547548 / 4503599627370496 + 6004799503160661 / 4503599627370496 - 2 * x
        = real_of_int (14011198840708209 - 2 * n) / 2 ^ 52"
      unfolding n by (simp add: field_simps)
    show "- 1 / 2 ^ 52
        < 8006399337547548 / 4503599627370496 + 6004799503160661 / 4503599627370496 - 2 * x"
      using hi by simp
    show "odd (14011198840708209 - 2 * n)" by simp
  qed
  have a: "rounded_distance x Ratio_4_3 < rounded_distance x Ratio_1_1"
    unfolding rounded_distance_def by (rule rounded_less) (use lo hi below in \<open>simp_all add: abs_if\<close>)
  have b: "rounded_distance x Ratio_4_3 < rounded_distance x Ratio_3_4"
    unfolding rounded_distance_def by (rule rounded_less) (use lo hi in \<open>simp_all add: abs_if\<close>)
  have c: "rounded_distance x Ratio_4_3 < rounded_distance x Ratio_16_9"
    unfolding rounded_distance_def by (rule rounded_less) (use lo hi above in \<open>simp_all add: abs_if\<close>)
  have e: "rounded_distance x Ratio_4_3 < rounded_distance x Ratio_9_16"
    unfolding rounded_distance_def by (rule rounded_less) (use lo hi in \<open>simp_all add: abs_if\<close>)
  show ?thesis
    by (rule select_4_3) (use lo hi a b c e in simp_all)
qed

lemma region_1_1:
  assumes d: "is_double x" and lo: "7 / 8 \<le> x" and hi: "x < 7 / 6"
  shows "mapAspectRatioToImagen (Finite x) = Ratio_1_1"
proof -
  have above: "1 / 2 ^ 52 \<le> 6004799503160661 / 4503599627370496 + 1 - 2 * x" if "1 \<le> x"
  proof -
    from double_grid_52[OF d that] obtain n :: int where n: "x = of_int n / 2 ^ 52" by auto
    show ?thesis
    proof (rule gap_odd)
      show "6004799503160661 / 4503599627370496 + 1 - 2 * x
          = real_of_int (10508399130531157 - 2 * n) / 2 ^ 52"
        unfolding n by (simp add: field_simps)
      show "- 1 / 2 ^ 52 < 6004799503160661 / 4503599627370496 + 1 - 2 * x"
        using hi by simp
      show "odd (10508399130531157 - 2 * n)" by simp
    qed
  qed
  have below: "1 / 2 ^ 52 \<le> 2 * x - 7 / 4" if "7 / 8 < x"
  proof -
    from double_grid_53[OF d] lo obtain n :: int where n: "x = of_int n / 2 ^ 53" by auto
    show ?thesis
    proof (rule gap_pos)
      show "2 * x - 7 / 4 = real_of_int (n - 7881299347898368) / 2 ^ 52"
        unfolding n by (simp add: field_simps)
      show "0 < 2 * x - 7 / 4" using that by simp
    qed
  qed
  have a: "rounded_distance x Ratio_1_1 \<le> rounded_distance x Ratio_4_3"
  proof -
    have "rounded_distance x Ratio_1_1 < rounded_distance x Ratio_4_3"
      unfolding rounded_distance_def
    proof (rule rounded_less)
      show "0 \<le> \<bar>x - reference_double Ratio_1_1\<bar>" by simp
      show "\<bar>x - reference_double Ratio_1_1\<bar> + 1 / 8 \<le> \<bar>x - reference_double Ratio_4_3\<bar>
            \<and> \<bar>x - reference_double Ratio_4_3\<bar> < 2 ^ 49
          \<or> \<bar>x - reference_double Ratio_1_1\<bar> + 1 / 2 ^ 52 \<le> \<bar>x - reference_double Ratio_4_3\<bar>
            \<and> \<bar>x - reference_double Ratio_4_3\<bar> < 1"
      proof (cases "1 \<le> x")
        case True
        from above[OF this] True hi show ?thesis by (simp add: abs_if)
      next
        case False
        with lo show ?thesis by (simp add: abs_if)
      qed
    qed
    then show ?thesis by simp
  qed
  have b: "rounded_distance x Ratio_1_1 \<le> rounded_distance x Ratio_3_4"
  proof (cases "x = 7 / 8")
    case True
    show ?thesis unfolding True rounded_distance_def by simp
  next
    case False
    with lo have "7 / 8 < x" by simp
    from below[OF this] have "rounded_distance x Ratio_1_1 < rounded_distance x Ratio_3_4"
      unfolding rounded_distance_def by (intro rounded_less) (use lo hi in \<open>simp_all add: abs_if\<close>)
    then show ?thesis by simp
  qed
  have c: "rounded_distance x Ratio_1_1 < rounded_distance x Ratio_16_9"
    unfolding rounded_distance_def by (rule rounded_less) (use lo hi in \<open>simp_all add: abs_if\<close>)
  have e: "rounded_distance x Ratio_1_1 < rounded_distance x Ratio_9_16"
    unfolding rounded_distance_def by (rule rounded_less) (use lo hi in \<open>simp_all add: abs_if\<close>)
  show ?thesis
  proof (rule select_1_1)
    show "\<bar>x\<bar> \<le> 2 ^ 48" using lo hi by simp
    show "rounded_distance x Ratio_1_1 \<le> rounded_distance x j" for j
      using a b c e by (cases j) simp_all
  qed
qed

lemma region_3_4:
  assumes d: "is_double x" and lo: "21 / 32 \<le> x" and hi: "x < 7 / 8"
  shows "mapAspectRatioToImagen (Finite x) = Ratio_3_4"
proof -
  from double_grid_53[OF d] lo obtain n :: int where n: "x = of_int n / 2 ^ 53" by auto
  have above: "1 / 2 ^ 52 \<le> 7 / 4 - 2 * x"
  proof (rule gap_pos)
    show "7 / 4 - 2 * x = real_of_int (7881299347898368 - n) / 2 ^ 52"
      unfolding n by (simp add: field_simps)
    show "0 < 7 / 4 - 2 * x" using hi by simp
  qed
  have below: "1 / 2 ^ 52 \<le> 2 * x - 21 / 16" if "21 / 32 < x"
  proof (rule gap_pos)
    show "2 * x - 21 / 16 = real_of_int (n - 5910974510923776) / 2 ^ 52"
      unfolding n by (simp add: field_simps)
    show "0 < 2 * x - 21 / 16" using that by simp
  qed
  have a: "rounded_distance x Ratio_3_4 < rounded_distance x Ratio_1_1"
    unfolding rounded_distance_def by (rule rounded_less) (use lo hi above in \<open>simp_all add: abs_if\<close>)
  have b: "rounded_distance x Ratio_3_4 < rounded_distance x Ratio_4_3"
    unfolding rounded_distance_def by (rule rounded_less) (use lo hi in \<open>simp_all add: abs_if\<close>)
  have c: "rounded_distance x Ratio_3_4 < rounded_distance x Ratio_16_9"
    unfolding rounded_distance_def by (rule rounded_less) (use lo hi in \<open>simp_all add: abs_if\<close>)
  have e: "rounded_distance x Ratio_3_4 \<le> rounded_distance x Ratio_9_16"
  proof (cases "x = 21 / 32")
    case True
    show ?thesis unfolding True rounded_distance_def by simp
  next
    case False
    with lo have "21 / 32 < x" by simp
    from below[OF this] have "rounded_distance x Ratio_3_4 < rounded_distance x Ratio_9_16"
      unfolding rounded_distance_def by (intro rounded_less) (use lo hi in \<open>simp_all add: abs_if\<close>)
    then show ?thesis by simp
  qed
  show ?thesis
    by (rule select_3_4) (use lo hi a b c e in simp_all)
qed

lemma region_9_16:
  assumes d: "is_double x" and lo: "- (2 ^ 48) \<le> x" and hi: "x < 21 / 32"
  shows "mapAspectRatioToImagen (Finite x) = Ratio_9_16"
proof -
  have above: "1 / 2 ^ 52 \<le> 21 / 16 - 2 * x" if "9 / 16 < x"
  proof -
    from double_grid_53[OF d] that obtain n :: int where n: "x = of_int n / 2 ^ 53" by auto
    show ?thesis
    proof (rule gap_pos)
      show "21 / 16 - 2 * x = real_of_int (5910974510923776 - n) / 2 ^ 52"
        unfolding n by (simp add: field_simps)
      show "0 < 21 / 16 - 2 * x" using hi by simp
    qed
  qed
  have a: "rounded_distance x Ratio_9_16 < rounded_distance x Ratio_3_4"
    unfolding rounded_distance_def
  proof (rule rounded_less)
    show "0 \<le> \<bar>x - reference_double Ratio_9_16\<bar>" by simp
    show "\<bar>x - reference_double Ratio_9_16\<bar> + 1 / 8 \<le> \<bar>x - reference_double Ratio_3_4\<bar>
          \<and> \<bar>x - reference_double Ratio_3_4\<bar> < 2 ^ 49
        \<or> \<bar>x - reference_double Ratio_9_16\<bar> + 1 / 2 ^ 52 \<le> \<bar>x - reference_double Ratio_3_4\<bar>
          \<and> \<bar>x - reference_double Ratio_3_4\<bar> < 1"
    proof (cases "9 / 16 < x")
      case True
      from above[OF this] True hi show ?thesis by (simp add: abs_if)
    next
      case False
      with lo show ?thesis by (simp add: abs_if)
    qed
  qed
  have b: "rounded_distance x Ratio_9_16 < rounded_distance x Ratio_1_1"
    unfolding rounded_distance_def by (rule rounded_less) (use lo hi in \<open>simp_all add: abs_if\<close>)
  have c: "rounded_distance x Ratio_9_16 < rounded_distance x Ratio_4_3"
    unfolding rounded_distance_def by (rule rounded_less) (use lo hi in \<open>simp_all add: abs_if\<close>)
  have e: "rounded_distance x Ratio_9_16 < rounded_distance x Ratio_16_9"
    unfolding rounded_distance_def by (rule rounded_less) (use lo hi in \<open>simp_all add: abs_if\<close>)
  show ?thesis
    by (rule select_9_16) (use lo hi a b c e in \<open>simp_all add: abs_if\<close>)
qed

text \<open>Some doubles, and two reals that are not doubles.\<close>

lemma double_1: "is_double 1"
  by (rule is_doubleI[of _ 0 "2 ^ 52"]) (simp_all add: power_int_minus_divide)

lemma double_3_4: "is_double (3 / 4)"
  by (rule is_doubleI[of _ "- 1" "3 * 2 ^ 51"]) (simp_all add: power_int_minus_divide)

lemma double_7_8: "is_double (7 / 8)"
  by (rule is_doubleI[of _ "- 1" "7 * 2 ^ 50"]) (simp_all add: power_int_minus_divide)

lemma double_2: "is_double 2"
  by (rule is_doubleI[of _ 1 "2 ^ 52"]) (simp_all add: power_int_minus_divide)

lemma double_16_9: "is_double (8006399337547548 / 4503599627370496)"
  by (rule is_doubleI[of _ 0 "8006399337547548"]) (simp_all add: power_int_minus_divide)

lemma double_1e16: "is_double 10000000000000000"
  by (rule is_doubleI[of _ 53 "5000000000000000"]) simp_all

lemma double_neg_2_52: "is_double (- (2 ^ 52))"
  by (rule is_doubleI[of _ 52 "- (2 ^ 52)"]) simp_all

lemma not_double_7_6: "\<not> is_double (7 / 6)"
proof
  assume "is_double (7 / 6)"
  from double_grid_52[OF this] obtain n :: int where "(7::real) / 6 = of_int n / 2 ^ 52" by auto
  then have "real_of_int (6 * n) = real_of_int (7 * 2 ^ 52)" by (simp add: field_simps)
  then have "6 * n = 7 * 2 ^ 52" by (simp only: of_int_eq_iff)
  then have "6 * n = 31525197391593472" by simp
  then show False by presburger
qed

lemma not_double_14_9: "\<not> is_double (14 / 9)"
proof
  assume "is_double (14 / 9)"
  from double_grid_52[OF this] obtain n :: int where "(14::real) / 9 = of_int n / 2 ^ 52" by auto
  then have "real_of_int (9 * n) = real_of_int (14 * 2 ^ 52)" by (simp add: field_simps)
  then have "9 * n = 14 * 2 ^ 52" by (simp only: of_int_eq_iff)
  then have "9 * n = 63050394783186944" by simp
  then show False by presburger
qed

text \<open>The five distances at the double 1e16 and at the double \<open>-2^52\<close>, where the
  subtractions round to multiples of 2 and of 1.\<close>

lemma rhe_eval: "round_half_even q =
     (if q - of_int \<lfloor>q\<rfloor> < 1 / 2 then \<lfloor>q\<rfloor> else if 1 / 2 < q - of_int \<lfloor>q\<rfloor> then \<lfloor>q\<rfloor> + 1
      else if even \<lfloor>q\<rfloor> then \<lfloor>q\<rfloor> else \<lfloor>q\<rfloor> + 1)"
  by (simp add: round_half_even_def Let_def)

lemma diff_1e16:
  "js_abs (js_sub (Finite 10000000000000000) (supportedRatios Ratio_1_1)) = Finite 10000000000000000"
  "js_abs (js_sub (Finite 10000000000000000) (supportedRatios Ratio_4_3)) = Finite 9999999999999998"
  "js_abs (js_sub (Finite 10000000000000000) (supportedRatios Ratio_3_4)) = Finite 10000000000000000"
  "js_abs (js_sub (Finite 10000000000000000) (supportedRatios Ratio_16_9)) = Finite 9999999999999998"
  "js_abs (js_sub (Finite 10000000000000000) (supportedRatios Ratio_9_16)) = Finite 10000000000000000"
  by (simp_all add: supportedRatios_values round64_in_range round_to_double_eval[of 53] rhe_eval
      del: supportedRatios.simps)

lemma mapper_1e16: "mapAspectRatioToImagen (Finite 10000000000000000) = Ratio_4_3"
  by (simp add: loop_simps diff_1e16 del: supportedRatios.simps)

lemma double_0: "is_double 0"
  by (simp add: is_double_def round64_def round_to_double_def)

lemma double_neg_2: "is_double (- 2)"
  by (rule is_doubleI[of _ 1 "- (2 ^ 52)"]) (simp_all add: power_int_minus_divide)

lemma diff_neg_2_52:
  "js_abs (js_sub (Finite (- 4503599627370496)) (supportedRatios Ratio_1_1)) = Finite 4503599627370497"
  "js_abs (js_sub (Finite (- 4503599627370496)) (supportedRatios Ratio_4_3)) = Finite 4503599627370497"
  "js_abs (js_sub (Finite (- 4503599627370496)) (supportedRatios Ratio_3_4)) = Finite 4503599627370497"
  "js_abs (js_sub (Finite (- 4503599627370496)) (supportedRatios Ratio_16_9)) = Finite 4503599627370498"
  "js_abs (js_sub (Finite (- 4503599627370496)) (supportedRatios Ratio_9_16)) = Finite 4503599627370497"
  by (simp_all add: supportedRatios_values round64_in_range round_to_double_eval[of 52] rhe_eval
      del: supportedRatios.simps)

lemma mapper_neg_2_52: "mapAspectRatioToImagen (Finite (- 4503599627370496)) = Ratio_1_1"
  by (simp add: loop_simps diff_neg_2_52 del: supportedRatios.simps)

lemma mapper_not_finite:
  "mapAspectRatioToImagen NaN = Ratio_1_1"
  "mapAspectRatioToImagen PosInfinity = Ratio_1_1"
  "mapAspectRatioToImagen NegInfinity = Ratio_1_1"
  by (simp_all add: loop_simps supportedRatios_values del: supportedRatios.simps)

section \<open>The aspect-ratio mapper picks the first nearest reference\<close>

lemma nearest_referenceI:
  assumes "i < length reference_ratios" "fst (reference_ratios ! i) = token"
    and "list_all (\<lambda>r. \<bar>ratio - snd (reference_ratios ! i)\<bar> \<le> \<bar>ratio - snd r\<bar>) reference_ratios"
    and "list_all (\<lambda>r. \<bar>ratio - snd (reference_ratios ! i)\<bar> < \<bar>ratio - snd r\<bar>)
           (take i reference_ratios)"
  shows "nearest_reference ratio token"
proof -
  have "i \<in> set [0..<length reference_ratios]"
    using assms(1) by simp
  then show ?thesis
    unfolding nearest_reference_def list_ex_iff using assms(2-4) by blast
qed

text \<open>The vocabulary in plain logic, and the fact that it determines the token.\<close>

lemma nearest_reference_iff:
  "nearest_reference ratio token \<longleftrightarrow>
     (\<exists>i < length reference_ratios. fst (reference_ratios ! i) = token
        \<and> (\<forall>j < length reference_ratios.
              \<bar>ratio - snd (reference_ratios ! i)\<bar> \<le> \<bar>ratio - snd (reference_ratios ! j)\<bar>)
        \<and> (\<forall>j < i. \<bar>ratio - snd (reference_ratios ! i)\<bar> < \<bar>ratio - snd (reference_ratios ! j)\<bar>))"
proof -
  have take_all: "list_all P (take i reference_ratios) \<longleftrightarrow> (\<forall>j < i. P (reference_ratios ! j))"
    if "i < length reference_ratios" for i and P :: "string \<times> real \<Rightarrow> bool"
    using that by (simp add: list_all_length)
  have whole: "list_all P reference_ratios
      \<longleftrightarrow> (\<forall>j < length reference_ratios. P (reference_ratios ! j))"
    for P :: "string \<times> real \<Rightarrow> bool"
    by (simp add: list_all_length)
  show ?thesis
    unfolding nearest_reference_def list_ex_iff
    by (auto simp: take_all whole)
qed

lemma nearest_reference_unique:
  assumes "nearest_reference ratio s" and "nearest_reference ratio t"
  shows "s = t"
proof -
  let ?d = "\<lambda>k. \<bar>ratio - snd (reference_ratios ! k)\<bar>"
  from assms(1) obtain i where i: "i < length reference_ratios" "fst (reference_ratios ! i) = s"
    "\<forall>j < length reference_ratios. ?d i \<le> ?d j" "\<forall>j < i. ?d i < ?d j"
    unfolding nearest_reference_iff by blast
  from assms(2) obtain k where k: "k < length reference_ratios" "fst (reference_ratios ! k) = t"
    "\<forall>j < length reference_ratios. ?d k \<le> ?d j" "\<forall>j < k. ?d k < ?d j"
    unfolding nearest_reference_iff by blast
  have "\<not> i < k" using i(1,3) k(1,4) by (meson leD)
  moreover have "\<not> k < i" using k(1,3) i(1,4) by (meson leD)
  ultimately have "i = k" by simp
  with i(2) k(2) show ?thesis by simp
qed

lemma nearest_9_16: "ratio < 21 / 32 \<Longrightarrow> nearest_reference ratio ''9:16''"
  by (intro nearest_referenceI[of 4]) (simp_all add: reference_ratios_def abs_if)

lemma nearest_3_4: "21 / 32 \<le> ratio \<Longrightarrow> ratio < 7 / 8 \<Longrightarrow> nearest_reference ratio ''3:4''"
  by (intro nearest_referenceI[of 2]) (simp_all add: reference_ratios_def abs_if)

lemma nearest_1_1: "7 / 8 \<le> ratio \<Longrightarrow> ratio \<le> 7 / 6 \<Longrightarrow> nearest_reference ratio ''1:1''"
  by (intro nearest_referenceI[of 0]) (simp_all add: reference_ratios_def abs_if)

lemma nearest_4_3: "7 / 6 < ratio \<Longrightarrow> ratio \<le> 14 / 9 \<Longrightarrow> nearest_reference ratio ''4:3''"
  by (intro nearest_referenceI[of 1]) (simp_all add: reference_ratios_def abs_if)

lemma nearest_16_9: "14 / 9 < ratio \<Longrightarrow> nearest_reference ratio ''16:9''"
  by (intro nearest_referenceI[of 3]) (simp_all add: reference_ratios_def abs_if)

lemma mapper_nearest:
  assumes d: "is_double x" and pos: "0 < x" and hi: "x \<le> 2 ^ 48"
  shows "nearest_reference x (ratio_token (mapAspectRatioToImagen (Finite x)))"
proof -
  from d not_double_7_6 not_double_14_9 have ne: "x \<noteq> 7 / 6" "x \<noteq> 14 / 9" by blast+
  consider "x < 21 / 32" | "21 / 32 \<le> x \<and> x < 7 / 8" | "7 / 8 \<le> x \<and> x < 7 / 6"
    | "7 / 6 < x \<and> x < 14 / 9" | "14 / 9 < x"
    using ne by linarith
  then show ?thesis
  proof cases
    case 1
    with pos have "mapAspectRatioToImagen (Finite x) = Ratio_9_16"
      by (intro region_9_16[OF d]) simp_all
    with nearest_9_16[OF 1] show ?thesis by simp
  next
    case 2
    then have "mapAspectRatioToImagen (Finite x) = Ratio_3_4"
      by (intro region_3_4[OF d]) simp_all
    with nearest_3_4[of x] 2 show ?thesis by simp
  next
    case 3
    then have "mapAspectRatioToImagen (Finite x) = Ratio_1_1"
      by (intro region_1_1[OF d]) simp_all
    with nearest_1_1[of x] 3 show ?thesis by simp
  next
    case 4
    then have "mapAspectRatioToImagen (Finite x) = Ratio_4_3"
      by (intro region_4_3[OF d]) simp_all
    with nearest_4_3[of x] 4 show ?thesis by simp
  next
    case 5
    then have "mapAspectRatioToImagen (Finite x) = Ratio_16_9"
      using hi by (intro region_16_9[OF d]) simp_all
    with nearest_16_9[OF 5] show ?thesis by simp
  qed
qed

lemma mapper_examples:
  "mapAspectRatioToImagen (Finite 1) = Ratio_1_1"
  "mapAspectRatioToImagen (round64 (16 / 9)) = Ratio_16_9"
  "mapAspectRatioToImagen (Finite (3 / 4)) = Ratio_3_4"
proof -
  show "mapAspectRatioToImagen (Finite 1) = Ratio_1_1"
    by (rule region_1_1[OF double_1]) simp_all
  have "round64 (16 / 9) = Finite (8006399337547548 / 4503599627370496)"
    using supportedRatios_values[of Ratio_16_9] by simp
  moreover have "mapAspectRatioToImagen (Finite (8006399337547548 / 4503599627370496)) = Ratio_16_9"
    by (rule region_16_9[OF double_16_9]) simp_all
  ultimately show "mapAspectRatioToImagen (round64 (16 / 9)) = Ratio_16_9" by simp
  show "mapAspectRatioToImagen (Finite (3 / 4)) = Ratio_3_4"
    by (rule region_3_4[OF double_3_4]) simp_all
qed

text \<open>
  Claim C3, amended. For every positive double up to \<open>2^48\<close> the mapper returns the token
  of the reference table (1:1 = 1, 4:3 = 4/3, 3:4 = 3/4, 16:9 = 16/9, 9:16 = 9/16, in this
  order) whose real value is at least as close to the input as every other value, and
  strictly closer than every value listed before it: among equidistant references the
  first listed one wins. It maps 1 to 1:1, the quotient 16 / 9 to 16:9 and 0.75 to 3:4.
\<close>

theorem nearest_supported_ratio:
  "(is_double ratio \<and> 0 < ratio \<and> ratio \<le> 2 ^ 48 \<longrightarrow>
      nearest_reference ratio (ratio_token (mapAspectRatioToImagen (Finite ratio))))
   \<and> ratio_token (mapAspectRatioToImagen (Finite 1)) = ''1:1''
   \<and> ratio_token (mapAspectRatioToImagen (round64 (16 / 9))) = ''16:9''
   \<and> ratio_token (mapAspectRatioToImagen (Finite 0.75)) = ''3:4''"
  using mapper_nearest[of ratio] by (simp add: mapper_examples)

text \<open>At the double 7/8 the references 3:4 and 1:1 are equally far away; the first listed
  one, 1:1, is returned.\<close>

theorem nearest_supported_ratio_witness:
  "is_double (7 / 8) \<and> (0::real) < 7 / 8 \<and> (7::real) / 8 \<le> 2 ^ 48
   \<and> nearest_reference (7 / 8) (ratio_token (mapAspectRatioToImagen (Finite (7 / 8))))
   \<and> ratio_token (mapAspectRatioToImagen (Finite (7 / 8))) = ''1:1''"
proof -
  have "mapAspectRatioToImagen (Finite (7 / 8)) = Ratio_1_1"
    by (rule region_1_1[OF double_7_8]) simp_all
  then show ?thesis
    using nearest_supported_ratio[of "7 / 8"] double_7_8 by simp
qed

text \<open>
  Claim C3 as stated fails for large ratios, where the subtractions round: at the double
  1e16 the differences to 4/3 and to 16/9 both round to 1e16 - 2, and the mapper returns
  4:3, the first of the two, although 16/9 is the nearest reference.
\<close>

theorem nearest_ratio_lost_at_1e16:
  "is_double 10000000000000000 \<and> (0::real) < 10000000000000000
   \<and> ratio_token (mapAspectRatioToImagen (Finite 10000000000000000)) = ''4:3''
   \<and> nearest_reference 10000000000000000 ''16:9''
   \<and> \<not> nearest_reference 10000000000000000 ''4:3''"
proof -
  have "\<not> nearest_reference 10000000000000000 ''4:3''"
    by (simp add: nearest_reference_def reference_ratios_def upt_rec)
  then show ?thesis
    using double_1e16 nearest_16_9[of 10000000000000000] by (simp add: mapper_1e16)
qed

text \<open>
  Claim C10, amended. The mapper has no error result: for every number, finite or not, it
  returns one of the five tokens. For every double from \<open>-2^48\<close> to 0 it returns 9:16, the
  reference of the smallest value.
\<close>

theorem aspect_ratio_mapper_total:
  "ratio_token (mapAspectRatioToImagen input) \<in> {''1:1'', ''4:3'', ''3:4'', ''16:9'', ''9:16''}
   \<and> (is_double ratio \<and> - (2 ^ 48) \<le> ratio \<and> ratio \<le> 0 \<longrightarrow>
        ratio_token (mapAspectRatioToImagen (Finite ratio)) = ''9:16'')"
proof -
  have "ratio_token (mapAspectRatioToImagen input) \<in> {''1:1'', ''4:3'', ''3:4'', ''16:9'', ''9:16''}"
    by (cases "mapAspectRatioToImagen input") simp_all
  moreover have "ratio_token (mapAspectRatioToImagen (Finite ratio)) = ''9:16''"
    if "is_double ratio" "- (2 ^ 48) \<le> ratio" "ratio \<le> 0"
    using region_9_16[OF that(1,2)] that(3) by simp
  ultimately show ?thesis by blast
qed

theorem aspect_ratio_mapper_total_witness:
  "is_double (- 2) \<and> - (2 ^ 48) \<le> (- 2::real) \<and> (- 2::real) \<le> 0
   \<and> ratio_token (mapAspectRatioToImagen (Finite (- 2))) = ''9:16''
   \<and> is_double 0 \<and> - (2 ^ 48) \<le> (0::real)
   \<and> ratio_token (mapAspectRatioToImagen (Finite 0)) = ''9:16''"
  using aspect_ratio_mapper_total[of _ "- 2"] aspect_ratio_mapper_total[of _ 0] double_neg_2 double_0
  by simp

text \<open>
  Claim C10 as stated fails for ratios of large magnitude and for the negative infinity:
  at the double \<open>-2^52\<close> four of the five differences round to \<open>2^52 + 1\<close>, none is less
  than the first, and the mapper returns 1:1; at the negative infinity every difference is
  the positive infinity, and the mapper returns 1:1 as well.
\<close>

theorem nonpositive_ratio_lost_at_minus_2_52:
  "is_double (- 4503599627370496) \<and> (- 4503599627370496::real) \<le> 0
   \<and> ratio_token (mapAspectRatioToImagen (Finite (- 4503599627370496))) = ''1:1''
   \<and> ratio_token (mapAspectRatioToImagen NegInfinity) = ''1:1''"
  using double_neg_2_52 by (simp add: mapper_neg_2_52 mapper_not_finite)

section \<open>The image-to-image adapter reads the response\<close>

text \<open>The scan leaves with the inline data of the first part that has some, whatever
  follows it, and finds nothing exactly when no part has inline data.\<close>

lemma first_inlineData_Some:
  "first_inlineData ps = Some d \<longleftrightarrow>
     (\<exists>pre part post. ps = pre @ part # post \<and> (\<forall>q \<in> set pre. inlineData q = None)
        \<and> inlineData part = Some d)"
proof (induction ps)
  case Nil
  then show ?case by simp
next
  case (Cons p ps)
  show ?case
  proof (cases "inlineData p")
    case None
    have "(\<exists>pre part post. p # ps = pre @ part # post
             \<and> (\<forall>q \<in> set pre. inlineData q = None) \<and> inlineData part = Some d)
        \<longleftrightarrow> (\<exists>pre part post. ps = pre @ part # post
             \<and> (\<forall>q \<in> set pre. inlineData q = None) \<and> inlineData part = Some d)"
      (is "?L \<longleftrightarrow> ?R")
    proof
      assume ?L
      then obtain pre part post where *: "p # ps = pre @ part # post"
        "\<forall>q \<in> set pre. inlineData q = None" "inlineData part = Some d" by blast
      with None obtain pre' where "pre = p # pre'" by (cases pre) auto
      with * show ?R by auto
    next
      assume ?R
      then obtain pre part post where *: "ps = pre @ part # post"
        "\<forall>q \<in> set pre. inlineData q = None" "inlineData part = Some d" by blast
      then have "p # ps = (p # pre) @ part # post" "\<forall>q \<in> set (p # pre). inlineData q = None"
        using None by auto
      with *(3) show ?L by blast
    qed
    with None Cons show ?thesis by simp
  next
    case (Some e)
    have "(\<exists>pre part post. p # ps = pre @ part # post
             \<and> (\<forall>q \<in> set pre. inlineData q = None) \<and> inlineData part = Some d)
        \<longleftrightarrow> e = d" (is "?L \<longleftrightarrow> _")
    proof
      assume ?L
      then obtain pre part post where *: "p # ps = pre @ part # post"
        "\<forall>q \<in> set pre. inlineData q = None" "inlineData part = Some d" by blast
      show "e = d"
      proof (cases pre)
        case Nil
        with * Some show ?thesis by simp
      next
        case (Cons a list)
        with * Some show ?thesis by simp
      qed
    next
      assume "e = d"
      with Some have "p # ps = [] @ p # ps \<and> (\<forall>q \<in> set []. inlineData q = None)
          \<and> inlineData p = Some d"
        by simp
      then show ?L by blast
    qed
    with Some show ?thesis by simp
  qed
qed

lemma first_inlineData_None:
  "first_inlineData ps = None \<longleftrightarrow> (\<forall>q \<in> set ps. inlineData q = None)"
  by (induction ps) (auto split: option.splits)

text \<open>The three outcomes of the adapter on a response, in the order the source tests them.\<close>

lemma gemini_image_found:
  "scan_parts (first_candidate response) = Some d \<Longrightarrow>
   regenerateImageWithGemini_response response finalPrompt
     = Inr \<lparr>result_image = data d, result_prompt = finalPrompt\<rparr>"
  by (simp add: regenerateImageWithGemini_response_def)

lemma gemini_blocked_by_finishReason:
  assumes "scan_parts (first_candidate response) = None"
    and "candidate_finishReason (first_candidate response) = Some reason"
    and "reason = ''SAFETY'' \<or> reason = ''RECITATION''"
  shows "regenerateImageWithGemini_response response finalPrompt
     = Inl (Error (''Image regeneration was blocked. Reason: '' @ reason
              @ ''. Please try a different style or frame.''))"
  using assms
  by (auto simp: regenerateImageWithGemini_response_def js_or_def truthy_def interpolate_def)

lemma gemini_blocked_by_blockReason:
  assumes "scan_parts (first_candidate response) = None"
    and "\<not> truthy (candidate_finishReason (first_candidate response))"
    and "feedback_blockReason (promptFeedback response) = Some reason" and "reason \<noteq> []"
  shows "regenerateImageWithGemini_response response finalPrompt
     = Inl (Error (''Image regeneration was blocked. Reason: '' @ reason
              @ ''. Please try a different style or frame.''))"
  using assms
  by (auto simp: regenerateImageWithGemini_response_def js_or_def truthy_def interpolate_def)

lemma gemini_no_image:
  assumes "scan_parts (first_candidate response) = None"
    and "candidate_finishReason (first_candidate response) \<noteq> Some ''SAFETY''"
    and "candidate_finishReason (first_candidate response) \<noteq> Some ''RECITATION''"
    and "\<not> truthy (feedback_blockReason (promptFeedback response))"
  shows "regenerateImageWithGemini_response response finalPrompt
     = Inl (Error ''No image was generated by Gemini.'')"
  using assms by (simp add: regenerateImageWithGemini_response_def)

lemma gemini_safety_example:
  "regenerateImageWithGemini_response safety_response finalPrompt
     = Inl (Error ''Image regeneration was blocked. Reason: SAFETY. Please try a different style or frame.'')
   \<and> str_includes ''Image regeneration was blocked. Reason: SAFETY. Please try a different style or frame.''
        ''SAFETY''"
  by (simp add: regenerateImageWithGemini_response_def response_defs reading_defs includes_simps)

text \<open>
  Claim C4. The claim holds on the three paths above except where the candidate has a
  finish reason that is not a blocking one and the response carries a block reason. On the
  response whose first candidate holds a text part only and finished with STOP, and whose
  prompt feedback carries the block reason PROHIBITED_CONTENT, the adapter makes one
  remote call and raises the blocked message with the reason STOP: the block reason, which
  made it raise, does not occur in the message.
\<close>

theorem block_reason_not_embedded:
  "regenerateImageWithGemini (mock_env (Inr stop_with_block_response) (Inr no_images))
       ''/9j/4AAQSkZJRg=='' ANIME
     = ([GenerateContent (gemini_request ''/9j/4AAQSkZJRg=='' (getGeminiInstructionalPrompt ANIME))],
        Inl (Error ''Image regeneration was blocked. Reason: STOP. Please try a different style or frame.''))
   \<and> scan_parts (first_candidate stop_with_block_response) = None
   \<and> feedback_blockReason (promptFeedback stop_with_block_response) = Some ''PROHIBITED_CONTENT''
   \<and> \<not> str_includes ''Image regeneration was blocked. Reason: STOP. Please try a different style or frame.''
         ''PROHIBITED_CONTENT''"
  by (simp add: regenerateImageWithGemini_def regenerateImageWithGemini_response_def getAiClient_def
      mock_env_def response_defs reading_defs includes_simps)

section \<open>The text-to-image adapter appends the style suffix\<close>

text \<open>
  Claim C5. When the credential is set and the text-conditioned service answers the request
  with a response whose first generated image carries non-empty bytes, the adapter makes
  that one call, with the base prompt followed by the style suffix as its prompt, and
  returns those bytes together with exactly that prompt. The dispatcher returns the same
  for the model imagen and a non-empty text prompt.
\<close>

theorem imagen_prompt_order:
  assumes "getAiClient env = Inr key"
    and "generateImages env (imagen_request (basePrompt @ getImagenStyleSuffix sty) ratio)
           = Inr response"
    and "generatedImages response
           = Some (\<lparr>generated_image = Some \<lparr>imageBytes = Some bytes\<rparr>\<rparr> # others)"
    and "bytes \<noteq> []"
  shows "generateImageWithImagen env basePrompt sty ratio
           = ([GenerateImages (imagen_request (basePrompt @ getImagenStyleSuffix sty) ratio)],
              Inr \<lparr>result_image = bytes, result_prompt = basePrompt @ getImagenStyleSuffix sty\<rparr>)
         \<and> images_prompt (imagen_request (basePrompt @ getImagenStyleSuffix sty) ratio)
           = basePrompt @ getImagenStyleSuffix sty
         \<and> (basePrompt \<noteq> [] \<longrightarrow>
              regenerateImage env \<lparr>model = imagen, style = sty, aspectRatio = ratio,
                                   base64Data = img, prompt = Some basePrompt\<rparr>
              = ([GenerateImages (imagen_request (basePrompt @ getImagenStyleSuffix sty) ratio)],
                 Inr \<lparr>result_image = bytes, result_prompt = basePrompt @ getImagenStyleSuffix sty\<rparr>))"
proof -
  have adapter: "generateImageWithImagen env basePrompt sty ratio
           = ([GenerateImages (imagen_request (basePrompt @ getImagenStyleSuffix sty) ratio)],
              Inr \<lparr>result_image = bytes, result_prompt = basePrompt @ getImagenStyleSuffix sty\<rparr>)"
    using assms
    by (simp add: generateImageWithImagen_def generateImageWithImagen_response_def
        first_imageBytes_def Let_def)
  moreover have "images_prompt (imagen_request (basePrompt @ getImagenStyleSuffix sty) ratio)
           = basePrompt @ getImagenStyleSuffix sty"
    by (simp add: imagen_request_def)
  moreover have "regenerateImage env \<lparr>model = imagen, style = sty, aspectRatio = ratio,
                                   base64Data = img, prompt = Some basePrompt\<rparr>
              = ([GenerateImages (imagen_request (basePrompt @ getImagenStyleSuffix sty) ratio)],
                 Inr \<lparr>result_image = bytes, result_prompt = basePrompt @ getImagenStyleSuffix sty\<rparr>)"
    if "basePrompt \<noteq> []"
    using that adapter by (simp add: regenerateImage_def regenerateImage_try_def)
  ultimately show ?thesis by blast
qed

theorem imagen_prompt_order_witness:
  "getAiClient (mock_env (Inr safety_response) (Inr one_image_response)) = Inr ''test-key''
   \<and> generatedImages one_image_response
       = Some (\<lparr>generated_image = Some \<lparr>imageBytes = Some ''aW1hZ2U=''\<rparr>\<rparr> # [])
   \<and> ''aW1hZ2U='' \<noteq> []
   \<and> regenerateImage (mock_env (Inr safety_response) (Inr one_image_response)) imagen_options
       = ([GenerateImages
            \<lparr>images_model = ''imagen-4.0-generate-001'',
             images_prompt = ''A red bicycle leaning on a wall, beautiful Japanese anime scene, style of a top animation studio, cinematic anime lighting.'',
             numberOfImages = 1, outputMimeType = ''image/jpeg'', config_aspectRatio = ''16:9''\<rparr>],
          Inr \<lparr>result_image = ''aW1hZ2U='',
               result_prompt = ''A red bicycle leaning on a wall, beautiful Japanese anime scene, style of a top animation studio, cinematic anime lighting.''\<rparr>)"
proof -
  let ?env = "mock_env (Inr safety_response) (Inr one_image_response)"
  have k: "getAiClient ?env = Inr ''test-key''"
    by (simp add: getAiClient_def mock_env_def)
  have g: "generateImages ?env
             (imagen_request (''A red bicycle leaning on a wall'' @ getImagenStyleSuffix ANIME)
                (round64 (16 / 9)))
             = Inr one_image_response"
    by (simp add: mock_env_def)
  have i: "generatedImages one_image_response
       = Some (\<lparr>generated_image = Some \<lparr>imageBytes = Some ''aW1hZ2U=''\<rparr>\<rparr> # [])"
    by (simp add: one_image_response_def)
  have r: "mapAspectRatioToImagen (round64 (16 / 9)) = Ratio_16_9"
    by (rule mapper_examples(2))
  show ?thesis
    using imagen_prompt_order[OF k g i, of None] k i
    by (simp add: imagen_options_def imagen_request_def r getImagenStyleSuffix_def ArtStyle_defs)
qed

section \<open>The dispatcher normalises errors\<close>

text \<open>The dispatcher makes the calls of its \<open>try\<close> block, returns what the block returns,
  and throws what the \<open>catch\<close> block makes of what the \<open>try\<close> block throws.\<close>

lemma regenerateImage_raises:
  "snd (regenerateImage_try env options) = Inl error \<Longrightarrow>
   snd (regenerateImage env options) = Inl (regenerateImage_catch (model options) error)"
  by (cases "regenerateImage_try env options") (simp add: regenerateImage_def)

lemma regenerateImage_returns:
  "snd (regenerateImage_try env options) = Inr result \<Longrightarrow>
   snd (regenerateImage env options) = Inr result"
  by (cases "regenerateImage_try env options") (simp add: regenerateImage_def)

lemma regenerateImage_calls:
  "fst (regenerateImage env options) = fst (regenerateImage_try env options)"
  by (cases "regenerateImage_try env options") (simp add: regenerateImage_def split: sum.split)

lemma unknown_not_blocked:
  "\<not> str_includes (''Failed to regenerate image with '' @ model_name m
        @ ''. Check the console for details.'') ''blocked''"
  by (cases m) (simp_all add: includes_simps)




text \<open>
  Claim C2. With the model imagen and no text prompt, and with the model gemini and no
  image data, the dispatcher makes no remote call, and inside its \<open>try\<close> block the error
  that says which input is required is raised. That error is caught by the dispatcher's own
  \<open>catch\<close> block, and what the caller receives is the catch-all error, which does not say
  what is missing.
\<close>

theorem missing_input_collapsed:
  "regenerateImage env
       \<lparr>model = imagen, style = ANIME, aspectRatio = Finite 1, base64Data = None, prompt = None\<rparr>
     = ([], Inl (Error ''Failed to regenerate image with imagen. Check the console for details.''))
   \<and> regenerateImage_try env
       \<lparr>model = imagen, style = ANIME, aspectRatio = Finite 1, base64Data = None, prompt = None\<rparr>
     = ([], Inl (Error ''A text prompt is required for the Imagen model.''))
   \<and> regenerateImage env
       \<lparr>model = gemini, style = ANIME, aspectRatio = Finite 1, base64Data = None, prompt = None\<rparr>
     = ([], Inl (Error ''Failed to regenerate image with gemini. Check the console for details.''))
   \<and> regenerateImage_try env
       \<lparr>model = gemini, style = ANIME, aspectRatio = Finite 1, base64Data = None, prompt = None\<rparr>
     = ([], Inl (Error ''Base64 image data is required for the Gemini model.''))"
  by (simp add: regenerateImage_def regenerateImage_try_def regenerateImage_catch_def includes_simps)

text \<open>
  Claim C6, amended. When the \<open>try\<close> block raises an \<open>Error\<close> whose message contains "429"
  or "RESOURCE_EXHAUSTED" and does not contain "API key not valid", the dispatcher raises
  the rate-limit error, whichever model was chosen.
\<close>

theorem rate_limited_unless_credentials:
  assumes "snd (regenerateImage_try env options) = Inl (Error message)"
    and "str_includes message ''429'' \<or> str_includes message ''RESOURCE_EXHAUSTED''"
    and "\<not> str_includes message ''API key not valid''"
  shows "snd (regenerateImage env options)
           = Inl (Error ''API rate limit or quota exceeded. Please try again later.'')"
  using regenerateImage_raises[OF assms(1)] assms(2,3)
  by (auto simp: regenerateImage_catch_def)

theorem rate_limited_unless_credentials_witness:
  "snd (regenerateImage_try (throwing_env ''got status: 429 Too Many Requests'') gemini_options)
     = Inl (Error ''got status: 429 Too Many Requests'')
   \<and> snd (regenerateImage_try (throwing_env ''got status: 429 Too Many Requests'') imagen_options)
     = Inl (Error ''got status: 429 Too Many Requests'')
   \<and> str_includes ''got status: 429 Too Many Requests'' ''429''
   \<and> \<not> str_includes ''got status: 429 Too Many Requests'' ''API key not valid''
   \<and> snd (regenerateImage (throwing_env ''got status: 429 Too Many Requests'') gemini_options)
     = Inl (Error ''API rate limit or quota exceeded. Please try again later.'')
   \<and> snd (regenerateImage (throwing_env ''got status: 429 Too Many Requests'') imagen_options)
     = Inl (Error ''API rate limit or quota exceeded. Please try again later.'')"
proof -
  let ?m = "''got status: 429 Too Many Requests''"
  have g: "snd (regenerateImage_try (throwing_env ?m) gemini_options) = Inl (Error ?m)"
    by (simp add: regenerateImage_try_def regenerateImageWithGemini_def getAiClient_def mock_defs)
  have i: "snd (regenerateImage_try (throwing_env ?m) imagen_options) = Inl (Error ?m)"
    by (simp add: regenerateImage_try_def generateImageWithImagen_def getAiClient_def mock_defs)
  have a: "str_includes ?m ''429''" by (simp add: includes_simps)
  have b: "\<not> str_includes ?m ''API key not valid''" by (simp add: includes_simps)
  from a have a': "str_includes ?m ''429'' \<or> str_includes ?m ''RESOURCE_EXHAUSTED''" ..
  show ?thesis
    using rate_limited_unless_credentials[OF g a' b] rate_limited_unless_credentials[OF i a' b]
      g i a b
    by blast
qed

text \<open>
  Claim C6 as stated fails: the credential test comes first, so an error whose message
  contains "429" and "API key not valid" is raised as the credential error.
\<close>

theorem rate_limit_loses_to_credentials:
  "snd (regenerateImage_try (throwing_env ''429: API key not valid'') imagen_options)
     = Inl (Error ''429: API key not valid'')
   \<and> str_includes ''429: API key not valid'' ''429''
   \<and> snd (regenerateImage (throwing_env ''429: API key not valid'') imagen_options)
     = Inl (Error ''Your Gemini API key is not valid. Please check your configuration.'')
   \<and> Error ''Your Gemini API key is not valid. Please check your configuration.''
     \<noteq> Error ''API rate limit or quota exceeded. Please try again later.''"
  by (simp add: service_defs mock_defs includes_simps)

text \<open>
  Claim C7, amended. When the \<open>try\<close> block raises an \<open>Error\<close> whose message contains
  "blocked" and contains none of "API key not valid", "429" and "RESOURCE_EXHAUSTED", the
  dispatcher raises that same error, message unchanged.
\<close>

theorem blocked_passes_through:
  assumes "snd (regenerateImage_try env options) = Inl (Error message)"
    and "str_includes message ''blocked''"
    and "\<not> str_includes message ''API key not valid''"
    and "\<not> str_includes message ''429''"
    and "\<not> str_includes message ''RESOURCE_EXHAUSTED''"
  shows "snd (regenerateImage env options) = Inl (Error message)"
  using regenerateImage_raises[OF assms(1)] assms(2-5)
  by (simp add: regenerateImage_catch_def)

theorem blocked_passes_through_witness:
  "snd (regenerateImage_try (mock_env (Inr safety_response) (Inr no_images)) gemini_options)
     = Inl (Error ''Image regeneration was blocked. Reason: SAFETY. Please try a different style or frame.'')
   \<and> str_includes ''Image regeneration was blocked. Reason: SAFETY. Please try a different style or frame.'' ''blocked''
   \<and> \<not> str_includes ''Image regeneration was blocked. Reason: SAFETY. Please try a different style or frame.'' ''API key not valid''
   \<and> \<not> str_includes ''Image regeneration was blocked. Reason: SAFETY. Please try a different style or frame.'' ''429''
   \<and> \<not> str_includes ''Image regeneration was blocked. Reason: SAFETY. Please try a different style or frame.'' ''RESOURCE_EXHAUSTED''
   \<and> snd (regenerateImage (mock_env (Inr safety_response) (Inr no_images)) gemini_options)
     = Inl (Error ''Image regeneration was blocked. Reason: SAFETY. Please try a different style or frame.'')"
proof -
  let ?m = "''Image regeneration was blocked. Reason: SAFETY. Please try a different style or frame.''"
  let ?env = "mock_env (Inr safety_response) (Inr no_images)"
  have t: "snd (regenerateImage_try ?env gemini_options) = Inl (Error ?m)"
    by (simp add: regenerateImage_try_def regenerateImageWithGemini_def
        regenerateImageWithGemini_response_def getAiClient_def mock_defs response_defs reading_defs)
  have a: "str_includes ?m ''blocked''" by (simp add: includes_simps)
  have b: "\<not> str_includes ?m ''API key not valid''" by (simp add: includes_simps)
  have c: "\<not> str_includes ?m ''429''" by (simp add: includes_simps)
  have d: "\<not> str_includes ?m ''RESOURCE_EXHAUSTED''" by (simp add: includes_simps)
  show ?thesis
    using blocked_passes_through[OF t a b c d] t a b c d by blast
qed

text \<open>
  Claim C7 as stated fails: the rate-limit test comes before the blocked test. The blocked
  error that the image-to-image adapter builds from a response with the block reason
  RESOURCE_EXHAUSTED, and an error thrown by the remote call with the message "Request
  blocked by proxy (HTTP 429)", both reach the caller as the rate-limit error.
\<close>

theorem blocked_loses_to_rate_limit:
  "regenerateImageWithGemini (mock_env (Inr quota_block_response) (Inr no_images))
       ''/9j/4AAQSkZJRg=='' ANIME
     = ([GenerateContent (gemini_request ''/9j/4AAQSkZJRg=='' (getGeminiInstructionalPrompt ANIME))],
        Inl (Error ''Image regeneration was blocked. Reason: RESOURCE_EXHAUSTED. Please try a different style or frame.''))
   \<and> str_includes ''Image regeneration was blocked. Reason: RESOURCE_EXHAUSTED. Please try a different style or frame.'' ''blocked''
   \<and> snd (regenerateImage (mock_env (Inr quota_block_response) (Inr no_images)) gemini_options)
     = Inl (Error ''API rate limit or quota exceeded. Please try again later.'')
   \<and> snd (regenerateImage_try (throwing_env ''Request blocked by proxy (HTTP 429)'') gemini_options)
     = Inl (Error ''Request blocked by proxy (HTTP 429)'')
   \<and> snd (regenerateImage (throwing_env ''Request blocked by proxy (HTTP 429)'') gemini_options)
     = Inl (Error ''API rate limit or quota exceeded. Please try again later.'')"
  by (simp add: service_defs regenerateImageWithGemini_response_def mock_defs response_defs
      reading_defs includes_simps)

section \<open>The edit operation keeps the dispatcher's contract\<close>

lemma editImage_raises:
  "snd (editImage_try env base64 p) = Inl error \<Longrightarrow>
   snd (editImage env base64 p) = Inl (editImage_catch error)"
  by (cases "editImage_try env base64 p") (simp add: editImage_def)

lemma editImage_returns:
  "snd (editImage env base64 p) = Inr r \<longleftrightarrow> snd (editImage_try env base64 p) = Inr r"
  by (cases "editImage_try env base64 p") (simp add: editImage_def split: sum.split)

lemma editImage_calls:
  "fst (editImage env base64 p)
     = (if truthy (API_KEY env) then [GenerateContent (gemini_request base64 p)] else [])"
  by (simp add: editImage_def editImage_try_def getAiClient_def truthy_def Let_def
      split: option.split sum.split)

lemma editImage_label:
  assumes "snd (editImage env base64 p) = Inr r"
  shows "result_prompt r = ''Edited with user prompt: '' @ [CHR 0x22] @ p @ [CHR 0x22]"
  using assms unfolding editImage_returns
  by (auto simp: editImage_try_def editImage_response_def Let_def
      split: sum.splits option.splits if_splits)

text \<open>The two \<open>catch\<close> blocks agree on the credential, rate-limit and blocked cases, and
  each raises its own catch-all error exactly when the other does.\<close>

lemma catch_same_contract:
  "(regenerateImage_catch m e
      = Error (''Failed to regenerate image with '' @ model_name m @ ''. Check the console for details.'')
    \<and> editImage_catch e = Error ''Failed to edit image with Gemini. Check the console for details.'')
   \<or> (regenerateImage_catch m e
      \<noteq> Error (''Failed to regenerate image with '' @ model_name m @ ''. Check the console for details.'')
    \<and> editImage_catch e = regenerateImage_catch m e)"
proof (cases e)
  case (Error message)
  then show ?thesis
    using unknown_not_blocked[of m]
    by (auto simp: regenerateImage_catch_def editImage_catch_def)
next
  case (NonError v)
  then show ?thesis by (simp add: regenerateImage_catch_def editImage_catch_def)
qed

text \<open>
  Claim C9. For all image bytes and every prompt, the edit operation makes at most one
  remote call (exactly one when the credential is set), whose text part is the caller's
  prompt as it was given, with no style suffix. When it returns a result, the result's
  prompt is the label "Edited with user prompt:" followed by the prompt in double quotes,
  which contains the prompt and differs from it. When its \<open>try\<close> block raises, it raises
  what its \<open>catch\<close> block makes of the error, and that block treats credential, rate-limit
  and blocked errors exactly as the dispatcher's does and raises its catch-all error
  exactly when the dispatcher's would.
\<close>

theorem editImage_contract:
  \<open>fst (editImage env base64 p)
     = (if truthy (API_KEY env) then [GenerateContent (gemini_request base64 p)] else [])
   \<and> contents_parts (gemini_request base64 p)
     = [\<lparr>inlineData = Some \<lparr>data = base64, mimeType = ''image/jpeg''\<rparr>, part_text = None\<rparr>,
        \<lparr>inlineData = None, part_text = Some p\<rparr>]
   \<and> (\<forall>r. snd (editImage env base64 p) = Inr r \<longrightarrow>
         result_prompt r = ''Edited with user prompt: "'' @ p @ ''"''
         \<and> result_prompt r \<noteq> p \<and> str_includes (result_prompt r) p)
   \<and> (\<forall>e. snd (editImage_try env base64 p) = Inl e \<longrightarrow>
         snd (editImage env base64 p) = Inl (editImage_catch e))
   \<and> (\<forall>m e.
         (regenerateImage_catch m e
            = Error (''Failed to regenerate image with '' @ model_name m
                @ ''. Check the console for details.'')
          \<and> editImage_catch e
            = Error ''Failed to edit image with Gemini. Check the console for details.'')
         \<or> (regenerateImage_catch m e
            \<noteq> Error (''Failed to regenerate image with '' @ model_name m
                @ ''. Check the console for details.'')
          \<and> editImage_catch e = regenerateImage_catch m e))\<close>
proof -
  have label: \<open>result_prompt r = ''Edited with user prompt: "'' @ p @ ''"''
         \<and> result_prompt r \<noteq> p \<and> str_includes (result_prompt r) p\<close>
    if "snd (editImage env base64 p) = Inr r" for r
  proof -
    have eq: \<open>result_prompt r = ''Edited with user prompt: "'' @ p @ ''"''\<close>
      using editImage_label[OF that] by simp
    have "length (result_prompt r) \<noteq> length p"
      unfolding eq by simp
    then have "result_prompt r \<noteq> p" by auto
    moreover have "str_includes (result_prompt r) p"
      unfolding eq by (rule str_includes_middle)
    ultimately show ?thesis using eq by blast
  qed
  have request: "contents_parts (gemini_request base64 p)
     = [\<lparr>inlineData = Some \<lparr>data = base64, mimeType = ''image/jpeg''\<rparr>, part_text = None\<rparr>,
        \<lparr>inlineData = None, part_text = Some p\<rparr>]"
    by (simp add: gemini_request_def)
  show ?thesis
    using editImage_calls[of env base64 p] request label editImage_raises[of env base64 p]
      catch_same_contract
    by blast
qed

theorem editImage_contract_witness:
  \<open>snd (editImage (mock_env (Inr two_image_response) (Inr no_images))
          ''/9j/4AAQSkZJRg=='' ''make the sky purple'')
     = Inr \<lparr>result_image = ''Zmlyc3Q='',
            result_prompt = ''Edited with user prompt: "make the sky purple"''\<rparr>
   \<and> ''Edited with user prompt: "make the sky purple"'' \<noteq> ''make the sky purple''
   \<and> str_includes ''Edited with user prompt: "make the sky purple"'' ''make the sky purple''
   \<and> fst (editImage (mock_env (Inr two_image_response) (Inr no_images))
          ''/9j/4AAQSkZJRg=='' ''make the sky purple'')
     = [GenerateContent (gemini_request ''/9j/4AAQSkZJRg=='' ''make the sky purple'')]
   \<and> snd (editImage_try (throwing_env ''fetch failed'') ''/9j/4AAQSkZJRg=='' ''make the sky purple'')
     = Inl (Error ''fetch failed'')
   \<and> snd (editImage (throwing_env ''fetch failed'') ''/9j/4AAQSkZJRg=='' ''make the sky purple'')
     = Inl (Error ''Failed to edit image with Gemini. Check the console for details.'')
   \<and> regenerateImage_catch gemini (Error ''fetch failed'')
     = Error ''Failed to regenerate image with gemini. Check the console for details.''
   \<and> regenerateImage_catch gemini (Error ''status 429'')
     \<noteq> Error ''Failed to regenerate image with gemini. Check the console for details.''
   \<and> editImage_catch (Error ''status 429'') = regenerateImage_catch gemini (Error ''status 429'')\<close>
proof -
  let ?env = "mock_env (Inr two_image_response) (Inr no_images)"
  let ?b = "''/9j/4AAQSkZJRg==''" and ?p = "''make the sky purple''"
  let ?r = \<open>\<lparr>result_image = ''Zmlyc3Q='',
             result_prompt = ''Edited with user prompt: "make the sky purple"''\<rparr>\<close>
  have k: "truthy (API_KEY ?env)" by (simp add: mock_env_def truthy_def)
  have s: "snd (editImage ?env ?b ?p) = Inr ?r"
    by (simp add: editImage_def editImage_try_def editImage_response_def getAiClient_def
        mock_env_def response_defs reading_defs)
  have t: "snd (editImage_try (throwing_env ''fetch failed'') ?b ?p) = Inl (Error ''fetch failed'')"
    by (simp add: editImage_try_def getAiClient_def mock_defs)
  have u: "regenerateImage_catch gemini (Error ''fetch failed'')
     = Error ''Failed to regenerate image with gemini. Check the console for details.''"
    by (simp add: regenerateImage_catch_def includes_simps)
  have v: "regenerateImage_catch gemini (Error ''status 429'')
     \<noteq> Error ''Failed to regenerate image with gemini. Check the console for details.''"
    by (simp add: regenerateImage_catch_def includes_simps)
  note inst = editImage_contract[of ?env ?b ?p]
  note failing = editImage_contract[of "throwing_env ''fetch failed''" ?b ?p]
  have "fst (editImage ?env ?b ?p)
     = (if truthy (API_KEY ?env) then [GenerateContent (gemini_request ?b ?p)] else [])"
    using inst by (rule conjunct1)
  with k have calls: "fst (editImage ?env ?b ?p) = [GenerateContent (gemini_request ?b ?p)]"
    by simp
  have \<open>\<forall>r. snd (editImage ?env ?b ?p) = Inr r \<longrightarrow>
         result_prompt r = ''Edited with user prompt: "'' @ ?p @ ''"''
         \<and> result_prompt r \<noteq> ?p \<and> str_includes (result_prompt r) ?p\<close>
    using inst by (rule conjunct2[THEN conjunct2, THEN conjunct1])
  from this[rule_format, OF s]
  have label: \<open>''Edited with user prompt: "make the sky purple"'' \<noteq> ?p
      \<and> str_includes ''Edited with user prompt: "make the sky purple"'' ?p\<close>
    by simp
  have "\<forall>e. snd (editImage_try (throwing_env ''fetch failed'') ?b ?p) = Inl e \<longrightarrow>
         snd (editImage (throwing_env ''fetch failed'') ?b ?p) = Inl (editImage_catch e)"
    using failing by (rule conjunct2[THEN conjunct2, THEN conjunct2, THEN conjunct1])
  with t have raised: "snd (editImage (throwing_env ''fetch failed'') ?b ?p)
     = Inl (editImage_catch (Error ''fetch failed''))"
    by blast
  have same: "\<forall>m e.
         (regenerateImage_catch m e
            = Error (''Failed to regenerate image with '' @ model_name m
                @ ''. Check the console for details.'')
          \<and> editImage_catch e
            = Error ''Failed to edit image with Gemini. Check the console for details.'')
         \<or> (regenerateImage_catch m e
            \<noteq> Error (''Failed to regenerate image with '' @ model_name m
                @ ''. Check the console for details.'')
          \<and> editImage_catch e = regenerateImage_catch m e)"
    using inst by (rule conjunct2[THEN conjunct2, THEN conjunct2, THEN conjunct2])
  have e1: "editImage_catch (Error ''fetch failed'')
     = Error ''Failed to edit image with Gemini. Check the console for details.''"
    using same[rule_format, of gemini "Error ''fetch failed''"] u by simp
  have e2: "editImage_catch (Error ''status 429'') = regenerateImage_catch gemini (Error ''status 429'')"
    using same[rule_format, of gemini "Error ''status 429''"] v by simp
  show ?thesis using s label calls t raised e1 e2 u v by simp
qed


end
